theory Spec2Isabelle
  imports Main
begin

section \<open>Strings\<close>

text \<open>
  A JavaScript string is a sequence of UTF-16 code units. A code unit is modelled by its
  number, and \<open>js\<close> gives the code units of an ASCII literal of the source.
\<close>

type_synonym jsstring = "int list"

definition js :: "string \<Rightarrow> jsstring" where
  "js s = map of_char s"

text \<open>
  \<open>String.prototype.trim\<close> removes the ECMAScript white space and line terminator
  code points from both ends: TAB, LF, VT, FF, CR, SP, NBSP, U+1680, U+2000 to U+200A,
  U+2028, U+2029, U+202F, U+205F, U+3000 and U+FEFF.
\<close>

definition isWhiteSpace :: "int \<Rightarrow> bool" where
  "isWhiteSpace c =
     ((9 \<le> c \<and> c \<le> 13) \<or> c = 32 \<or> c = 160 \<or> c = 5760 \<or> (8192 \<le> c \<and> c \<le> 8202) \<or>
      c = 8232 \<or> c = 8233 \<or> c = 8239 \<or> c = 8287 \<or> c = 12288 \<or> c = 65279)"

definition trim :: "jsstring \<Rightarrow> jsstring" where
  "trim s = rev (dropWhile isWhiteSpace (rev (dropWhile isWhiteSpace s)))"

fun startsWith :: "jsstring \<Rightarrow> jsstring \<Rightarrow> bool" where
  "startsWith s [] = True"
| "startsWith [] (p # ps) = False"
| "startsWith (c # cs) (p # ps) = (c = p \<and> startsWith cs ps)"

fun includesStr :: "jsstring \<Rightarrow> jsstring \<Rightarrow> bool" where
  "includesStr [] k = (k = [])"
| "includesStr (c # cs) k = (startsWith (c # cs) k \<or> includesStr cs k)"

definition isDigit :: "int \<Rightarrow> bool" where
  "isDigit c = (48 \<le> c \<and> c \<le> 57)"

text \<open>The word characters of \<open>\b\<close> (no unicode flag): letters, digits and underscore.\<close>

definition isWordChar :: "int \<Rightarrow> bool" where
  "isWordChar c = ((97 \<le> c \<and> c \<le> 122) \<or> (65 \<le> c \<and> c \<le> 90) \<or> isDigit c \<or> c = 95)"


section \<open>Regular expressions and global replacement\<close>

text \<open>
  The patterns of \<open>highlightCode\<close> are built from literal characters, the classes
  \<open>[^c]\<close> and \<open>\d\<close>, the assertion \<open>\b\<close>, sequence, ordered alternation, the greedy
  star and capturing groups. \<open>r+\<close> is \<open>r r*\<close>, \<open>r?\<close> is \<open>r|\<close> (empty), and a non-capturing
  group is the pattern inside it.
\<close>

datatype regex =
    Lits jsstring
  | NotChr int
  | Digit
  | WordB
  | Seq regex regex
  | Alt regex regex
  | Star regex
  | Group nat regex

definition Plus :: "regex \<Rightarrow> regex" where
  "Plus r = Seq r (Star r)"

definition Opt :: "regex \<Rightarrow> regex" where
  "Opt r = Alt r (Lits [])"

text \<open>\<open>alts [w1, ..., wn]\<close> is the alternation \<open>w1|...|wn\<close> of literal words, in this order.\<close>

definition alts :: "jsstring list \<Rightarrow> regex" where
  "alts ws = foldr (\<lambda>w r. Alt (Lits w) r) (butlast ws) (Lits (last ws))"

text \<open>
  With the flag \<open>i\<close> two characters match when they canonicalize to the same character.
  The patterns of this program are ASCII, and for an ASCII pattern character the
  canonicalization of ECMAScript identifies exactly \<open>a\<close> to \<open>z\<close> with \<open>A\<close> to \<open>Z\<close>: a
  character above U+007F never canonicalizes to an ASCII one.
\<close>

definition canonicalize :: "bool \<Rightarrow> int \<Rightarrow> int" where
  "canonicalize ic c = (if ic \<and> 97 \<le> c \<and> c \<le> 122 then c - 32 else c)"

definition isWordAt :: "int option \<Rightarrow> bool" where
  "isWordAt p = (case p of None \<Rightarrow> False | Some c \<Rightarrow> isWordChar c)"

fun headOf :: "jsstring \<Rightarrow> int option" where
  "headOf [] = None"
| "headOf (c # cs) = Some c"

text \<open>
  The matcher is the backtracking matcher of ECMAScript with its continuation written as
  a list of what is left to match. \<open>StarChk l r\<close> stands after one iteration of \<open>r*\<close> that
  began with \<open>l\<close> characters of input left: an iteration that consumed nothing fails, as
  in the RepeatMatcher of the standard. \<open>GroupEnd i l\<close> closes group \<open>i\<close>, opened when
  \<open>l\<close> characters had been matched.

  A state of the matcher is the character before the current position (for \<open>\b\<close>), the
  characters matched so far (last one first), the rest of the input and the captures.
\<close>

datatype kont =
    Match regex
  | StarChk nat regex
  | GroupEnd nat nat

type_synonym captures = "(nat \<times> jsstring) list"

text \<open>The measure of the matcher's termination.\<close>

fun weight :: "regex \<Rightarrow> nat" where
  "weight (Lits s) = 1"
| "weight (NotChr c) = 1"
| "weight Digit = 1"
| "weight WordB = 1"
| "weight (Seq a b) = 1 + weight a + weight b"
| "weight (Alt a b) = 1 + weight a + weight b"
| "weight (Star r) = 2 + weight r"
| "weight (Group i r) = 2 + weight r"

fun kweight :: "nat \<Rightarrow> kont \<Rightarrow> nat" where
  "kweight n (Match r) = weight r"
| "kweight n (StarChk l r) = (if n < l then 3 + weight r else 1)"
| "kweight n (GroupEnd i l) = 1"

function (sequential) matcher ::
  "bool \<Rightarrow> kont list \<Rightarrow> int option \<Rightarrow> jsstring \<Rightarrow> jsstring \<Rightarrow> captures \<Rightarrow>
   (jsstring \<times> jsstring \<times> captures) option" where
  "matcher ic [] prev acc rest caps = Some (acc, rest, caps)"
| "matcher ic (Match (Lits []) # k) prev acc rest caps = matcher ic k prev acc rest caps"
| "matcher ic (Match (Lits (p # ps)) # k) prev acc [] caps = None"
| "matcher ic (Match (Lits (p # ps)) # k) prev acc (c # cs) caps =
     (if canonicalize ic c = canonicalize ic p
      then matcher ic (Match (Lits ps) # k) (Some c) (c # acc) cs caps else None)"
| "matcher ic (Match (NotChr p) # k) prev acc [] caps = None"
| "matcher ic (Match (NotChr p) # k) prev acc (c # cs) caps =
     (if c \<noteq> p then matcher ic k (Some c) (c # acc) cs caps else None)"
| "matcher ic (Match Digit # k) prev acc [] caps = None"
| "matcher ic (Match Digit # k) prev acc (c # cs) caps =
     (if isDigit c then matcher ic k (Some c) (c # acc) cs caps else None)"
| "matcher ic (Match WordB # k) prev acc rest caps =
     (if isWordAt prev \<noteq> isWordAt (headOf rest) then matcher ic k prev acc rest caps else None)"
| "matcher ic (Match (Seq a b) # k) prev acc rest caps =
     matcher ic (Match a # Match b # k) prev acc rest caps"
| "matcher ic (Match (Alt a b) # k) prev acc rest caps =
     (case matcher ic (Match a # k) prev acc rest caps of
        Some x \<Rightarrow> Some x
      | None \<Rightarrow> matcher ic (Match b # k) prev acc rest caps)"
| "matcher ic (Match (Star r) # k) prev acc rest caps =
     (case matcher ic (Match r # StarChk (length rest) r # k) prev acc rest caps of
        Some x \<Rightarrow> Some x
      | None \<Rightarrow> matcher ic k prev acc rest caps)"
| "matcher ic (StarChk l r # k) prev acc rest caps =
     (if length rest < l then matcher ic (Match (Star r) # k) prev acc rest caps else None)"
| "matcher ic (Match (Group i r) # k) prev acc rest caps =
     matcher ic (Match r # GroupEnd i (length acc) # k) prev acc rest caps"
| "matcher ic (GroupEnd i l # k) prev acc rest caps =
     matcher ic k prev acc rest ((i, rev (take (length acc - l) acc)) # caps)"
  by pat_completeness auto
termination
  by (relation "measures [\<lambda>(ic, k, prev, acc, rest, caps). length rest,
                          \<lambda>(ic, k, prev, acc, rest, caps). sum_list (map (kweight (length rest)) k)]")
     auto

text \<open>
  A replacement text: literal pieces, \<open>$n\<close> (the text of group \<open>n\<close>, empty when the group
  did not take part) and \<open>$&\<close> (the whole match).
\<close>

datatype repl = RLit jsstring | RGroup nat | RWhole

fun lookupCap :: "nat \<Rightarrow> captures \<Rightarrow> jsstring" where
  "lookupCap i [] = []"
| "lookupCap i ((j, s) # cs) = (if i = j then s else lookupCap i cs)"

fun expand :: "repl list \<Rightarrow> jsstring \<Rightarrow> captures \<Rightarrow> jsstring" where
  "expand [] whole caps = []"
| "expand (RLit s # rs) whole caps = s @ expand rs whole caps"
| "expand (RGroup i # rs) whole caps = lookupCap i caps @ expand rs whole caps"
| "expand (RWhole # rs) whole caps = whole @ expand rs whole caps"

text \<open>
  \<open>s.replace(/r/g, rp)\<close>: the input is scanned from the left; at each position the
  first match in the matcher's priority order is replaced and the scan goes on behind
  it; where nothing matches the character is copied. Matches are found in the input,
  never in text that a replacement has produced. After an empty match the scan moves on
  by one character.
\<close>

fun replaceAll :: "bool \<Rightarrow> regex \<Rightarrow> repl list \<Rightarrow> int option \<Rightarrow> jsstring \<Rightarrow> jsstring" where
  "replaceAll ic r rp prev [] =
     (case matcher ic [Match r] prev [] [] [] of
        None \<Rightarrow> []
      | Some (acc, rest, caps) \<Rightarrow> expand rp (rev acc) caps)"
| "replaceAll ic r rp prev (c # cs) =
     (case matcher ic [Match r] prev [] (c # cs) [] of
        None \<Rightarrow> c # replaceAll ic r rp (Some c) cs
      | Some (acc, rest, caps) \<Rightarrow>
          (case acc of
             [] \<Rightarrow> expand rp [] caps @ c # replaceAll ic r rp (Some c) cs
           | a # as \<Rightarrow> expand rp (rev acc) caps @ replaceAll ic r rp (Some a) (drop (length as) cs)))"

text \<open>\<open>replaceG r ic rp s\<close> is \<open>s.replace(new RegExp(r, ic ? 'gi' : 'g'), rp)\<close>.\<close>

definition replaceG :: "regex \<Rightarrow> bool \<Rightarrow> repl list \<Rightarrow> jsstring \<Rightarrow> jsstring" where
  "replaceG r ic rp s = replaceAll ic r rp None s"


section \<open>The highlighting rules of highlightCode\<close>

text \<open>Lines 200 to 203: the three metacharacters of markup, \<open>&\<close> first.\<close>

definition escapeHtml :: "jsstring \<Rightarrow> jsstring" where
  "escapeHtml s =
     replaceG (Lits (js ''>'')) False [RLit (js ''&gt;'')]
       (replaceG (Lits (js ''<'')) False [RLit (js ''&lt;'')]
          (replaceG (Lits (js ''&'')) False [RLit (js ''&amp;'')] s))"

text \<open>What the three replacements together make of one character.\<close>

definition escapeChar :: "int \<Rightarrow> jsstring" where
  "escapeChar c =
     (if c = 38 then js ''&amp;'' else if c = 60 then js ''&lt;''
      else if c = 62 then js ''&gt;'' else [c])"

text \<open>Line 209: \<open>/(--[^\n]*)/g\<close>.\<close>

definition commentRe :: regex where
  "commentRe = Group 1 (Seq (Lits (js ''--'')) (Star (NotChr 10)))"

definition commentRepl :: "repl list" where
  \<open>commentRepl = [RLit (js ''<span class="token-comment">''), RGroup 1, RLit (js ''</span>'')]\<close>

text \<open>Lines 212 and 213: \<open>/('[^']*')/g\<close> and \<open>/("[^"]*")/g\<close>; 39 is the apostrophe, 34 the double quote.\<close>

definition singleQuotedRe :: regex where
  "singleQuotedRe = Group 1 (Seq (Lits [39]) (Seq (Star (NotChr 39)) (Lits [39])))"

definition doubleQuotedRe :: regex where
  "doubleQuotedRe = Group 1 (Seq (Lits [34]) (Seq (Star (NotChr 34)) (Lits [34])))"

definition stringRepl :: "repl list" where
  \<open>stringRepl = [RLit (js ''<span class="token-string">''), RGroup 1, RLit (js ''</span>'')]\<close>

text \<open>Lines 216 and 217: the keyword pattern, used with the flags \<open>gi\<close> and the replacement \<open>$&\<close>.\<close>

definition keywordList :: "jsstring list" where
  "keywordList = map js
     [''SELECT'', ''FROM'', ''WHERE'', ''LEFT'', ''RIGHT'', ''INNER'', ''JOIN'', ''ON'',
      ''GROUP BY'', ''ORDER BY'', ''HAVING'', ''LIMIT'', ''AS'', ''DISTINCT'', ''CASE'',
      ''WHEN'', ''THEN'', ''ELSE'', ''END'', ''WITH'', ''AND'', ''OR'', ''NOT'', ''IN'',
      ''NOW'', ''INTERVAL'', ''DATE_TRUNC'', ''AVG'', ''SUM'', ''COUNT'', ''MAX'', ''MIN'',
      ''RANK'', ''OVER'', ''PARTITION BY'', ''ROWS'', ''PRECEDING'', ''DATE_SUB'',
      ''ISODate'']"

definition keywordsRe :: regex where
  "keywordsRe = Seq WordB (Seq (Group 1 (alts keywordList)) WordB)"

definition keywordRepl :: "repl list" where
  \<open>keywordRepl = [RLit (js ''<span class="token-keyword">''), RWhole, RLit (js ''</span>'')]\<close>

text \<open>
  Lines 220 and 221: a string token whose content is a \<open>$\<close> operator. The alternation is
  the source's, with \<open>ne\<close> and \<open>in\<close> written twice.
\<close>

definition mongoOperatorList :: "jsstring list" where
  "mongoOperatorList = map js
     [''match'', ''group'', ''project'', ''addFields'', ''lookup'', ''sort'', ''limit'',
      ''unwind'', ''cond'', ''eq'', ''ne'', ''gt'', ''gte'', ''lt'', ''lte'', ''in'', ''sum'',
      ''avg'', ''max'', ''min'', ''dateToString'', ''size'', ''subtract'', ''divide'',
      ''literal'', ''push'', ''ne'', ''and'', ''or'', ''in'']"

definition mongoOperators :: regex where
  \<open>mongoOperators =
     Seq (Lits (js ''<span class="token-string">"''))
       (Seq (Group 1 (Seq (Lits (js ''$'')) (alts mongoOperatorList)))
          (Lits (js ''"</span>'')))\<close>

definition mongoRepl :: "repl list" where
  \<open>mongoRepl = [RLit (js ''<span class="token-keyword">"''), RGroup 1, RLit (js ''"</span>'')]\<close>

text \<open>Line 224: \<open>/\b(\d+(\.\d+)?)\b/g\<close>.\<close>

definition numberRe :: regex where
  "numberRe =
     Seq WordB
       (Seq (Group 1 (Seq (Plus Digit) (Opt (Group 2 (Seq (Lits (js ''.'')) (Plus Digit))))))
          WordB)"

definition numberRepl :: "repl list" where
  \<open>numberRepl = [RLit (js ''<span class="token-number">''), RGroup 1, RLit (js ''</span>'')]\<close>

text \<open>Line 227: \<open>/\b(true|false|null)\b/g\<close>.\<close>

definition booleanRe :: regex where
  "booleanRe = Seq WordB (Seq (Group 1 (alts (map js [''true'', ''false'', ''null'']))) WordB)"

definition booleanRepl :: "repl list" where
  \<open>booleanRepl = [RLit (js ''<span class="token-boolean">''), RGroup 1, RLit (js ''</span>'')]\<close>

text \<open>Lines 209 to 227, in the order of the source.\<close>

definition tokenRules :: "jsstring \<Rightarrow> jsstring" where
  "tokenRules s0 =
     (let s1 = replaceG commentRe False commentRepl s0;
          s2 = replaceG singleQuotedRe False stringRepl s1;
          s3 = replaceG doubleQuotedRe False stringRepl s2;
          s4 = replaceG keywordsRe True keywordRepl s3;
          s5 = replaceG mongoOperators False mongoRepl s4;
          s6 = replaceG numberRe False numberRepl s5
      in replaceG booleanRe False booleanRepl s6)"


section \<open>Numbers\<close>

text \<open>
  A Number is an IEEE 754 double. \<open>Fin m e\<close> is the finite value \<open>m * 2^e\<close>, kept with
  \<open>m\<close> odd, or \<open>Fin 0 0\<close> for zero. The two zeros are one value here: the program cannot
  tell them apart (both are falsy and both print as \<open>0\<close>).
\<close>

datatype number = Fin int int | PosInf | NegInf | NaN

function bitlen :: "int \<Rightarrow> int" where
  "bitlen n = (if n \<le> 0 then 0 else 1 + bitlen (n div 2))"
  by pat_completeness auto
termination
  by (relation "measure nat") auto

function declen :: "int \<Rightarrow> int" where
  "declen n = (if n \<le> 0 then 0 else 1 + declen (n div 10))"
  by pat_completeness auto
termination
  by (relation "measure nat") auto

function ipow :: "int \<Rightarrow> int \<Rightarrow> int" where
  "ipow b n =
     (if n \<le> 0 then 1
      else if even n then (let h = ipow b (n div 2) in h * h)
      else b * ipow b (n - 1))"
  by pat_completeness auto
termination
  by (relation "measure (\<lambda>(b, n). nat n)") auto

text \<open>\<open>scaled b p q t\<close> is the fraction \<open>(p / q) / b^t\<close> as a pair of integers.\<close>

definition scaled :: "int \<Rightarrow> int \<Rightarrow> int \<Rightarrow> int \<Rightarrow> int \<times> int" where
  "scaled b p q t = (if 0 \<le> t then (p, q * ipow b t) else (p * ipow b (- t), q))"

text \<open>For \<open>p, q > 0\<close>: the \<open>e\<close> with \<open>2^e \<le> p / q < 2^(e + 1)\<close>.\<close>

definition ilog2 :: "int \<Rightarrow> int \<Rightarrow> int" where
  "ilog2 p q =
     (let e = bitlen p - bitlen q; (a, b) = scaled 2 p q e
      in if a < b then e - 1 else e)"

text \<open>For \<open>p, q > 0\<close>: the \<open>n\<close> with \<open>10^(n - 1) \<le> p / q < 10^n\<close>.\<close>

definition ilog10 :: "int \<Rightarrow> int \<Rightarrow> int" where
  "ilog10 p q =
     (let d = declen p - declen q; (a, b) = scaled 10 p q d
      in if a < b then d else d + 1)"

text \<open>The integer nearest to \<open>a / b\<close>, the even one of two.\<close>

definition roundHalfEven :: "int \<Rightarrow> int \<Rightarrow> int" where
  "roundHalfEven a b =
     (let n = a div b; r = a mod b
      in if 2 * r < b then n else if b < 2 * r then n + 1 else if even n then n else n + 1)"

function canon :: "int \<Rightarrow> int \<Rightarrow> number" where
  "canon m e =
     (if m = 0 then Fin 0 0 else if even m then canon (m div 2) (e + 1) else Fin m e)"
  by pat_completeness auto
termination
  by (relation "measure (\<lambda>(m, e). nat \<bar>m\<bar>)") auto

text \<open>
  \<open>roundToDouble p q\<close> (\<open>q > 0\<close>) is the double nearest to \<open>p / q\<close>, ties to even: 53
  significant bits, the exponent of the last bit at least \<open>-1074\<close> (subnormal numbers),
  and an infinity from \<open>2^1024\<close> on.
\<close>

definition roundToDouble :: "int \<Rightarrow> int \<Rightarrow> number" where
  "roundToDouble p q =
     (if p = 0 then Fin 0 0
      else let a = \<bar>p\<bar>;
               t = max (ilog2 a q) (- 1022) - 52;
               (u, v) = scaled 2 a q t;
               n = roundHalfEven u v
           in if 971 < t \<or> (t = 971 \<and> ipow 2 53 \<le> n)
              then (if 0 < p then PosInf else NegInf)
              else canon (if 0 < p then n else - n) t)"

text \<open>The value \<open>d * 10^x\<close> of a decimal literal as a double.\<close>

definition decimalValue :: "int \<Rightarrow> int \<Rightarrow> number" where
  "decimalValue d x = (if 0 \<le> x then roundToDouble (d * ipow 10 x) 1 else roundToDouble d (ipow 10 (- x)))"

definition negate :: "number \<Rightarrow> number" where
  "negate x = (case x of Fin m e \<Rightarrow> Fin (- m) e | PosInf \<Rightarrow> NegInf | NegInf \<Rightarrow> PosInf | NaN \<Rightarrow> NaN)"

definition isNegative :: "number \<Rightarrow> bool" where
  "isNegative x = (case x of Fin m e \<Rightarrow> m < 0 | NegInf \<Rightarrow> True | _ \<Rightarrow> False)"

text \<open>The product of two Numbers (the operator \<open>*\<close>).\<close>

definition multiply :: "number \<Rightarrow> number \<Rightarrow> number" where
  "multiply x y =
     (case (x, y) of
        (Fin m e, Fin n f) \<Rightarrow>
          (if 0 \<le> e + f then roundToDouble (m * n * ipow 2 (e + f)) 1
           else roundToDouble (m * n) (ipow 2 (- (e + f))))
      | (NaN, _) \<Rightarrow> NaN
      | (_, NaN) \<Rightarrow> NaN
      | _ \<Rightarrow>
          (if x = Fin 0 0 \<or> y = Fin 0 0 then NaN
           else if isNegative x = isNegative y then PosInf else NegInf))"

definition digitsValue :: "jsstring \<Rightarrow> int" where
  "digitsValue ds = foldl (\<lambda>a c. 10 * a + (c - 48)) 0 ds"

function showDigits :: "int \<Rightarrow> jsstring \<Rightarrow> jsstring" where
  "showDigits n acc = (if n \<le> 0 then acc else showDigits (n div 10) ((48 + n mod 10) # acc))"
  by pat_completeness auto
termination
  by (relation "measure (\<lambda>(n, acc). nat n)") auto

text \<open>The decimal digits of an integer \<open>n \<ge> 0\<close>.\<close>

definition showInt :: "int \<Rightarrow> jsstring" where
  "showInt n = (if n \<le> 0 then [48] else showDigits n [])"

text \<open>
  Number::toString picks the shortest digits \<open>s\<close> (\<open>k\<close> of them) and the exponent \<open>n\<close>
  with \<open>s * 10^(n - k)\<close> rounding to the number, the closest such \<open>s\<close>. \<open>findDigits\<close>
  looks for them at \<open>k = 1, 2, ...\<close>; 17 digits always suffice for a double. The number
  is \<open>Fin m e = p / q\<close>, and \<open>n0\<close> is \<open>ilog10 p q\<close>.
\<close>

function findDigits :: "int \<Rightarrow> int \<Rightarrow> int \<Rightarrow> int \<Rightarrow> int \<Rightarrow> int \<Rightarrow> int \<times> int" where
  "findDigits m e p q n0 k =
     (let (u, v) = scaled 10 p q (n0 - k);
          lo = u div v;
          okLo = (decimalValue lo (n0 - k) = Fin m e);
          okHi = (decimalValue (lo + 1) (n0 - k) = Fin m e)
      in if okLo \<and> okHi then
           (if 2 * (u mod v) < v then (lo, k)
            else if v < 2 * (u mod v) then (lo + 1, k)
            else if even lo then (lo, k) else (lo + 1, k))
         else if okLo then (lo, k)
         else if okHi then (lo + 1, k)
         else if 17 \<le> k then (lo, k)
         else findDigits m e p q n0 (k + 1))"
  by pat_completeness auto
termination
  by (relation "measure (\<lambda>(m, e, p, q, n0, k). nat (17 - k))") auto

definition zeros :: "int \<Rightarrow> jsstring" where
  "zeros n = replicate (nat n) 48"

text \<open>The text of a positive finite number from its digits \<open>ds\<close> (\<open>k\<close> of them) and \<open>n\<close>.\<close>

definition layout :: "jsstring \<Rightarrow> int \<Rightarrow> int \<Rightarrow> jsstring" where
  "layout ds k n =
     (if k \<le> n \<and> n \<le> 21 then ds @ zeros (n - k)
      else if 0 < n \<and> n \<le> 21 then take (nat n) ds @ js ''.'' @ drop (nat n) ds
      else if - 6 < n \<and> n \<le> 0 then js ''0.'' @ zeros (- n) @ ds
      else (if k = 1 then ds else take 1 ds @ js ''.'' @ drop 1 ds) @ js ''e''
           @ (if n - 1 < 0 then js ''-'' else js ''+'') @ showInt \<bar>n - 1\<bar>)"

definition positiveToString :: "int \<Rightarrow> int \<Rightarrow> jsstring" where
  "positiveToString m e =
     (let (p, q) = scaled 2 m 1 (- e);
          n0 = ilog10 p q;
          (s, k) = findDigits m e p q n0 1
      in if s = ipow 10 k then layout (js ''1'') 1 (n0 + 1) else layout (showInt s) k n0)"

text \<open>Number::toString with radix 10.\<close>

definition numberToString :: "number \<Rightarrow> jsstring" where
  "numberToString x =
     (case x of
        NaN \<Rightarrow> js ''NaN''
      | PosInf \<Rightarrow> js ''Infinity''
      | NegInf \<Rightarrow> js ''-Infinity''
      | Fin m e \<Rightarrow>
          (if m = 0 then js ''0''
           else if m < 0 then js ''-'' @ positiveToString (- m) e
           else positiveToString m e))"

text \<open>
  \<open>x.toFixed(0)\<close>: a number that is not finite prints as Number::toString does; otherwise
  the sign is split off and, below \<open>10^21\<close>, the digits are those of the integer nearest to
  the value, the larger one of two.
\<close>

definition toFixed0 :: "number \<Rightarrow> jsstring" where
  "toFixed0 x =
     (case x of
        Fin m e \<Rightarrow>
          (let a = \<bar>m\<bar>;
               sign = (if m < 0 then js ''-'' else []);
               (p, q) = scaled 2 a 1 (- e)
           in if ipow 10 21 * q \<le> p then sign @ numberToString (Fin a e)
              else sign @ showInt ((2 * p + q) div (2 * q)))
      | _ \<Rightarrow> numberToString x)"


section \<open>JSON\<close>

text \<open>
  The values that \<open>JSON.parse\<close> returns. An object holds its properties in the order
  in which it enumerates them: the array indices in ascending order, then the other keys
  in the order of their creation.
\<close>

datatype json =
    JNull
  | JBool bool
  | JNum number
  | JStr jsstring
  | JArr "json list"
  | JObj "(jsstring \<times> json) list"

subsection \<open>JSON.parse\<close>

datatype token =
    TLBrace | TRBrace | TLBracket | TRBracket | TColon | TComma
  | TString jsstring | TNumber number | TTrue | TFalse | TNull

definition hexVal :: "int \<Rightarrow> int option" where
  "hexVal c =
     (if 48 \<le> c \<and> c \<le> 57 then Some (c - 48)
      else if 97 \<le> c \<and> c \<le> 102 then Some (c - 87)
      else if 65 \<le> c \<and> c \<le> 70 then Some (c - 55)
      else None)"

text \<open>The character of a one-letter escape: \<open>\" \\ \/ \b \f \n \r \t\<close>.\<close>

definition unescape :: "int \<Rightarrow> int option" where
  "unescape e =
     (if e = 34 \<or> e = 92 \<or> e = 47 then Some e
      else if e = 98 then Some 8
      else if e = 102 then Some 12
      else if e = 110 then Some 10
      else if e = 114 then Some 13
      else if e = 116 then Some 9
      else None)"

text \<open>
  \<open>lexString acc n cs\<close> reads a string behind its opening quote: the content and the
  number of code units read, the closing quote among them. A control character below
  U+0020 must be escaped.
\<close>

fun lexString :: "jsstring \<Rightarrow> nat \<Rightarrow> jsstring \<Rightarrow> (jsstring \<times> nat) option" where
  "lexString acc n [] = None"
| "lexString acc n (c # cs) =
     (if c = 34 then Some (rev acc, Suc n)
      else if c = 92 then
        (case cs of
           [] \<Rightarrow> None
         | e # es \<Rightarrow>
             (if e = 117 then
                (case es of
                   h1 # h2 # h3 # h4 # rest \<Rightarrow>
                     (case (hexVal h1, hexVal h2, hexVal h3, hexVal h4) of
                        (Some a, Some b, Some c', Some d) \<Rightarrow>
                          lexString ((4096 * a + 256 * b + 16 * c' + d) # acc) (n + 6) rest
                      | _ \<Rightarrow> None)
                 | _ \<Rightarrow> None)
              else (case unescape e of
                      None \<Rightarrow> None
                    | Some x \<Rightarrow> lexString (x # acc) (n + 2) es)))
      else if c < 32 then None
      else lexString (c # acc) (Suc n) cs)"

text \<open>
  A number: \<open>-? (0 | [1-9][0-9]*) (. [0-9]+)? ([eE] [+-]? [0-9]+)?\<close>. The result is its
  double and the number of code units read.
\<close>

definition scanNumber :: "jsstring \<Rightarrow> (number \<times> nat) option" where
  "scanNumber cs =
     (let neg = startsWith cs (js ''-'');
          cs1 = (if neg then drop 1 cs else cs);
          ds = takeWhile isDigit cs1;
          cs2 = dropWhile isDigit cs1;
          hasFrac = startsWith cs2 (js ''.'');
          fs = (if hasFrac then takeWhile isDigit (drop 1 cs2) else []);
          cs3 = (if hasFrac then dropWhile isDigit (drop 1 cs2) else cs2);
          hasExp = (startsWith cs3 (js ''e'') \<or> startsWith cs3 (js ''E''));
          cs4 = drop 1 cs3;
          expNeg = startsWith cs4 (js ''-'');
          cs5 = (if expNeg \<or> startsWith cs4 (js ''+'') then drop 1 cs4 else cs4);
          es = (if hasExp then takeWhile isDigit cs5 else []);
          rest = (if hasExp then dropWhile isDigit cs5 else cs3);
          x = (if expNeg then - digitsValue es else digitsValue es) - int (length fs);
          v = decimalValue (digitsValue (ds @ fs)) x
      in if ds = [] \<or> (1 < length ds \<and> startsWith ds (js ''0'')) \<or> (hasFrac \<and> fs = [])
            \<or> (hasExp \<and> es = [])
         then None
         else Some (if neg then negate v else v, length cs - length rest))"

definition isJsonSpace :: "int \<Rightarrow> bool" where
  "isJsonSpace c = (c = 9 \<or> c = 10 \<or> c = 13 \<or> c = 32)"

fun lexJson :: "jsstring \<Rightarrow> token list option" where
  "lexJson [] = Some []"
| "lexJson (c # cs) =
     (if isJsonSpace c then lexJson cs
      else if c = 123 then map_option (Cons TLBrace) (lexJson cs)
      else if c = 125 then map_option (Cons TRBrace) (lexJson cs)
      else if c = 91 then map_option (Cons TLBracket) (lexJson cs)
      else if c = 93 then map_option (Cons TRBracket) (lexJson cs)
      else if c = 58 then map_option (Cons TColon) (lexJson cs)
      else if c = 44 then map_option (Cons TComma) (lexJson cs)
      else if c = 34 then
        (case lexString [] 0 cs of
           None \<Rightarrow> None
         | Some (s, n) \<Rightarrow> map_option (Cons (TString s)) (lexJson (drop n cs)))
      else if c = 45 \<or> isDigit c then
        (case scanNumber (c # cs) of
           None \<Rightarrow> None
         | Some (v, n) \<Rightarrow> map_option (Cons (TNumber v)) (lexJson (drop (n - 1) cs)))
      else if startsWith (c # cs) (js ''true'') then map_option (Cons TTrue) (lexJson (drop 3 cs))
      else if startsWith (c # cs) (js ''false'') then map_option (Cons TFalse) (lexJson (drop 4 cs))
      else if startsWith (c # cs) (js ''null'') then map_option (Cons TNull) (lexJson (drop 3 cs))
      else None)"

text \<open>
  A key is an array index when it is the decimal text, without leading zeros, of an
  integer from 0 to \<open>2^32 - 2\<close>.
\<close>

definition isArrayIndex :: "jsstring \<Rightarrow> bool" where
  "isArrayIndex k =
     (case k of
        [] \<Rightarrow> False
      | c # cs \<Rightarrow>
          ((c = 48 \<and> cs = []) \<or> (49 \<le> c \<and> c \<le> 57))
          \<and> list_all isDigit cs \<and> length k \<le> 10 \<and> digitsValue k \<le> 4294967294)"

text \<open>Defining a property: a key that exists keeps its place and takes the new value.\<close>

fun defineProp :: "(jsstring \<times> json) list \<Rightarrow> jsstring \<Rightarrow> json \<Rightarrow> (jsstring \<times> json) list" where
  "defineProp [] k v = [(k, v)]"
| "defineProp ((k', v') # ms) k v =
     (if k' = k then (k, v) # ms else (k', v') # defineProp ms k v)"

definition ownKeysOrder :: "(jsstring \<times> json) list \<Rightarrow> (jsstring \<times> json) list" where
  "ownKeysOrder ms =
     sort_key (\<lambda>m. digitsValue (fst m)) (filter (\<lambda>m. isArrayIndex (fst m)) ms)
     @ filter (\<lambda>m. \<not> isArrayIndex (fst m)) ms"

definition scalar :: "token \<Rightarrow> json option" where
  "scalar t =
     (case t of
        TString s \<Rightarrow> Some (JStr s)
      | TNumber v \<Rightarrow> Some (JNum v)
      | TTrue \<Rightarrow> Some (JBool True)
      | TFalse \<Rightarrow> Some (JBool False)
      | TNull \<Rightarrow> Some JNull
      | _ \<Rightarrow> None)"

text \<open>
  The parser reads the tokens with a stack of the arrays and objects that are open.
  \<open>FArr es\<close>: an array with the elements \<open>es\<close> so far (last one first); \<open>FObj ms\<close>: an
  object with the members \<open>ms\<close>; \<open>FObjKey ms k\<close>: the same, reading the value of key \<open>k\<close>.
\<close>

datatype frame =
    FArr "json list"
  | FObj "(jsstring \<times> json) list"
  | FObjKey "(jsstring \<times> json) list" jsstring

datatype pmode = PValue | PArrayStart | PObjectStart | PKey | PColon jsstring | PAfter json

function (sequential) parseTokens :: "pmode \<Rightarrow> frame list \<Rightarrow> token list \<Rightarrow> json option" where
  "parseTokens (PAfter v) [] [] = Some v"
| "parseTokens mode st [] = None"
| "parseTokens PValue st (t # ts) =
     (case t of
        TLBracket \<Rightarrow> parseTokens PArrayStart st ts
      | TLBrace \<Rightarrow> parseTokens PObjectStart st ts
      | _ \<Rightarrow> (case scalar t of None \<Rightarrow> None | Some v \<Rightarrow> parseTokens (PAfter v) st ts))"
| "parseTokens PArrayStart st (t # ts) =
     (if t = TRBracket then parseTokens (PAfter (JArr [])) st ts
      else parseTokens PValue (FArr [] # st) (t # ts))"
| "parseTokens PObjectStart st (t # ts) =
     (case t of
        TRBrace \<Rightarrow> parseTokens (PAfter (JObj [])) st ts
      | TString k \<Rightarrow> parseTokens (PColon k) (FObj [] # st) ts
      | _ \<Rightarrow> None)"
| "parseTokens PKey st (t # ts) =
     (case t of TString k \<Rightarrow> parseTokens (PColon k) st ts | _ \<Rightarrow> None)"
| "parseTokens (PColon k) (FObj ms # st) (TColon # ts) = parseTokens PValue (FObjKey ms k # st) ts"
| "parseTokens (PAfter v) (FArr es # st) (TComma # ts) = parseTokens PValue (FArr (v # es) # st) ts"
| "parseTokens (PAfter v) (FArr es # st) (TRBracket # ts) =
     parseTokens (PAfter (JArr (rev (v # es)))) st ts"
| "parseTokens (PAfter v) (FObjKey ms k # st) (TComma # ts) =
     parseTokens PKey (FObj (defineProp ms k v) # st) ts"
| "parseTokens (PAfter v) (FObjKey ms k # st) (TRBrace # ts) =
     parseTokens (PAfter (JObj (ownKeysOrder (defineProp ms k v)))) st ts"
| "parseTokens mode st ts = None"
  by pat_completeness auto
termination
  by (relation "measures [\<lambda>(mode, st, ts). length ts,
                          \<lambda>(mode, st, ts). (if mode = PArrayStart then 1 else 0)]") auto

text \<open>\<open>JSON.parse(text)\<close>; \<open>None\<close> is the SyntaxError that it throws.\<close>

definition jsonParse :: "jsstring \<Rightarrow> json option" where
  "jsonParse s = (case lexJson s of None \<Rightarrow> None | Some ts \<Rightarrow> parseTokens PValue [] ts)"

subsection \<open>JSON.stringify with the indentation 2\<close>

definition hexDigit :: "int \<Rightarrow> int" where
  "hexDigit d = (if d < 10 then 48 + d else 87 + d)"

definition unicodeEscape :: "int \<Rightarrow> jsstring" where
  "unicodeEscape c =
     [92, 117] @ [hexDigit (c div 4096 mod 16), hexDigit (c div 256 mod 16),
                  hexDigit (c div 16 mod 16), hexDigit (c mod 16)]"

definition isHighSurrogate :: "int \<Rightarrow> bool" where
  "isHighSurrogate c = (55296 \<le> c \<and> c \<le> 56319)"

definition isLowSurrogate :: "int \<Rightarrow> bool" where
  "isLowSurrogate c = (56320 \<le> c \<and> c \<le> 57343)"

text \<open>
  QuoteJSONString: the short escapes, \<open>\uXXXX\<close> for the other control characters and for
  a surrogate without its partner, every other character as it is. 92 is the backslash.
\<close>

fun quoteChars :: "jsstring \<Rightarrow> jsstring" where
  "quoteChars [] = []"
| "quoteChars (c # cs) =
     (if c = 8 then [92, 98] @ quoteChars cs
      else if c = 9 then [92, 116] @ quoteChars cs
      else if c = 10 then [92, 110] @ quoteChars cs
      else if c = 12 then [92, 102] @ quoteChars cs
      else if c = 13 then [92, 114] @ quoteChars cs
      else if c = 34 then [92, 34] @ quoteChars cs
      else if c = 92 then [92, 92] @ quoteChars cs
      else if c < 32 then unicodeEscape c @ quoteChars cs
      else if isHighSurrogate c then
        (case cs of
           [] \<Rightarrow> unicodeEscape c
         | d # ds \<Rightarrow>
             (if isLowSurrogate d then c # d # quoteChars ds
              else unicodeEscape c @ quoteChars cs))
      else if isLowSurrogate c then unicodeEscape c @ quoteChars cs
      else c # quoteChars cs)"

definition quoteJSON :: "jsstring \<Rightarrow> jsstring" where
  "quoteJSON s = [34] @ quoteChars s @ [34]"

text \<open>
  SerializeJSONProperty with the gap of two spaces; \<open>ind\<close> is the current indentation.
  A number that is not finite is written \<open>null\<close>.
\<close>

fun serialize :: "jsstring \<Rightarrow> json \<Rightarrow> jsstring"
  and serializeElements :: "jsstring \<Rightarrow> json list \<Rightarrow> jsstring"
  and serializeMembers :: "jsstring \<Rightarrow> (jsstring \<times> json) list \<Rightarrow> jsstring" where
  "serialize ind JNull = js ''null''"
| "serialize ind (JBool b) = (if b then js ''true'' else js ''false'')"
| "serialize ind (JNum x) = (case x of Fin m e \<Rightarrow> numberToString x | _ \<Rightarrow> js ''null'')"
| "serialize ind (JStr s) = quoteJSON s"
| "serialize ind (JArr []) = js ''[]''"
| "serialize ind (JArr (x # xs)) =
     js ''['' @ [10] @ ind @ js ''  '' @ serialize (ind @ js ''  '') x
     @ serializeElements (ind @ js ''  '') xs @ [10] @ ind @ js '']''"
| "serialize ind (JObj []) = js ''{}''"
| "serialize ind (JObj ((k, v) # ms)) =
     js ''{'' @ [10] @ ind @ js ''  '' @ quoteJSON k @ js '': '' @ serialize (ind @ js ''  '') v
     @ serializeMembers (ind @ js ''  '') ms @ [10] @ ind @ js ''}''"
| "serializeElements ind [] = []"
| "serializeElements ind (x # xs) =
     js '','' @ [10] @ ind @ serialize ind x @ serializeElements ind xs"
| "serializeMembers ind [] = []"
| "serializeMembers ind ((k, v) # ms) =
     js '','' @ [10] @ ind @ quoteJSON k @ js '': '' @ serialize ind v @ serializeMembers ind ms"

text \<open>\<open>JSON.stringify(v, null, 2)\<close>.\<close>

definition jsonStringify :: "json \<Rightarrow> jsstring" where
  "jsonStringify v = serialize [] v"


section \<open>highlightCode\<close>

text \<open>
  Lines 186 to 230. The \<open>try\<close> around \<open>JSON.stringify(JSON.parse(formattedCode), null, 2)\<close>
  keeps the trimmed text when the parse throws.
\<close>

definition highlightCode :: "jsstring \<Rightarrow> jsstring" where
  "highlightCode code =
     (let trimmed = trim code;
          isMongo = (startsWith trimmed (js ''['') \<or> startsWith trimmed (js ''{''));
          formattedCode =
            (if isMongo
             then (case jsonParse trimmed of Some v \<Rightarrow> jsonStringify v | None \<Rightarrow> trimmed)
             else trimmed)
      in tokenRules (escapeHtml formattedCode))"


section \<open>Values of type any\<close>

text \<open>
  \<open>displayQueryResult\<close> takes \<open>data: any\<close>: the value that \<open>JSON.parse\<close> returned, or
  \<open>{}\<close>. What the program can throw: the rejection of the call to the model (with the
  text that line 169 shows for it), the SyntaxError of \<open>JSON.parse\<close> (with the text that
  was parsed), and the TypeErrors of reading a property of \<open>null\<close>, of calling a method
  that a value does not have, and of converting an object that has no primitive value.
\<close>

datatype thrown =
    Rejection jsstring
  | JsonSyntaxError jsstring
  | PropertyOfNull jsstring
  | NotAFunction jsstring
  | NoPrimitiveValue

text \<open>Truthiness: \<open>null\<close>, \<open>false\<close>, zero, \<open>NaN\<close> and the empty string are falsy.\<close>

definition truthy :: "json \<Rightarrow> bool" where
  "truthy v =
     (case v of
        JNull \<Rightarrow> False
      | JBool b \<Rightarrow> b
      | JNum x \<Rightarrow> x \<noteq> Fin 0 0 \<and> x \<noteq> NaN
      | JStr s \<Rightarrow> s \<noteq> []
      | JArr xs \<Rightarrow> True
      | JObj ms \<Rightarrow> True)"

text \<open>
  \<open>data.name\<close> for a \<open>data\<close> that is not \<open>null\<close>: the property of an object, and
  \<open>undefined\<close> (\<open>None\<close>) where there is none. The seven names that the program reads are
  properties of no prototype.
\<close>

definition getProp :: "json \<Rightarrow> jsstring \<Rightarrow> json option" where
  "getProp data name = (case data of JObj ms \<Rightarrow> map_of ms name | _ \<Rightarrow> None)"

text \<open>\<open>a || b\<close> where \<open>a\<close> is the property just read.\<close>

definition orElse :: "json option \<Rightarrow> json \<Rightarrow> json" where
  "orElse a b = (case a of None \<Rightarrow> b | Some v \<Rightarrow> if truthy v then v else b)"

text \<open>
  ToString. An array is joined with commas, \<open>null\<close> elements as empty texts. An object
  is \<open>[object Object]\<close>, unless it has a property \<open>toString\<close> of its own: a JSON value is
  not callable, and the conversion throws.
\<close>

fun toStringJS :: "json \<Rightarrow> thrown + jsstring"
  and joinElements :: "json list \<Rightarrow> thrown + jsstring" where
  "toStringJS JNull = Inr (js ''null'')"
| "toStringJS (JBool b) = Inr (if b then js ''true'' else js ''false'')"
| "toStringJS (JNum x) = Inr (numberToString x)"
| "toStringJS (JStr s) = Inr s"
| "toStringJS (JArr xs) = joinElements xs"
| "toStringJS (JObj ms) =
     (if map_of ms (js ''toString'') = None then Inr (js ''[object Object]'')
      else Inl NoPrimitiveValue)"
| "joinElements [] = Inr []"
| "joinElements (x # xs) =
     (case (if x = JNull then Inr [] else toStringJS x) of
        Inl e \<Rightarrow> Inl e
      | Inr s \<Rightarrow>
          (if xs = [] then Inr s
           else (case joinElements xs of
                   Inl e \<Rightarrow> Inl e
                 | Inr t \<Rightarrow> Inr (s @ js '','' @ t))))"

text \<open>
  StringToNumber: white space is trimmed; the empty text is 0; \<open>0x\<close>, \<open>0o\<close> and \<open>0b\<close>
  start an integer in that base; otherwise an optional sign and \<open>Infinity\<close> or a decimal
  literal (\<open>5\<close>, \<open>5.\<close>, \<open>.5\<close>, \<open>5.5\<close>, each with an optional exponent); anything else is
  \<open>NaN\<close>.
\<close>

definition digitVal :: "int \<Rightarrow> int" where
  "digitVal c = (case hexVal c of Some d \<Rightarrow> d | None \<Rightarrow> 16)"

definition baseLiteral :: "int \<Rightarrow> jsstring \<Rightarrow> number" where
  "baseLiteral b ds =
     (if ds \<noteq> [] \<and> list_all (\<lambda>c. digitVal c < b) ds
      then roundToDouble (foldl (\<lambda>a c. b * a + digitVal c) 0 ds) 1
      else NaN)"

definition decimalLiteral :: "jsstring \<Rightarrow> number" where
  "decimalLiteral cs =
     (let ds = takeWhile isDigit cs;
          cs2 = dropWhile isDigit cs;
          hasDot = startsWith cs2 (js ''.'');
          fs = (if hasDot then takeWhile isDigit (drop 1 cs2) else []);
          cs3 = (if hasDot then dropWhile isDigit (drop 1 cs2) else cs2);
          hasExp = (startsWith cs3 (js ''e'') \<or> startsWith cs3 (js ''E''));
          cs4 = drop 1 cs3;
          expNeg = startsWith cs4 (js ''-'');
          cs5 = (if expNeg \<or> startsWith cs4 (js ''+'') then drop 1 cs4 else cs4);
          es = (if hasExp then takeWhile isDigit cs5 else []);
          rest = (if hasExp then dropWhile isDigit cs5 else cs3);
          x = (if expNeg then - digitsValue es else digitsValue es) - int (length fs)
      in if (ds = [] \<and> fs = []) \<or> (hasExp \<and> es = []) \<or> 0 < length rest then NaN
         else decimalValue (digitsValue (ds @ fs)) x)"

definition unsignedLiteral :: "jsstring \<Rightarrow> number" where
  "unsignedLiteral cs = (if cs = js ''Infinity'' then PosInf else decimalLiteral cs)"

definition stringToNumber :: "jsstring \<Rightarrow> number" where
  "stringToNumber s =
     (let t = trim s
      in if t = [] then Fin 0 0
         else if startsWith t (js ''0x'') \<or> startsWith t (js ''0X'') then baseLiteral 16 (drop 2 t)
         else if startsWith t (js ''0o'') \<or> startsWith t (js ''0O'') then baseLiteral 8 (drop 2 t)
         else if startsWith t (js ''0b'') \<or> startsWith t (js ''0B'') then baseLiteral 2 (drop 2 t)
         else if startsWith t (js ''-'') then negate (unsignedLiteral (drop 1 t))
         else if startsWith t (js ''+'') then unsignedLiteral (drop 1 t)
         else unsignedLiteral t)"

text \<open>
  ToNumber. An array is converted through its text; an object is \<open>NaN\<close>, unless it has
  a property \<open>toString\<close> of its own, when the conversion throws.
\<close>

definition toNumberJS :: "json \<Rightarrow> thrown + number" where
  "toNumberJS v =
     (case v of
        JNull \<Rightarrow> Inr (Fin 0 0)
      | JBool b \<Rightarrow> Inr (if b then Fin 1 0 else Fin 0 0)
      | JNum x \<Rightarrow> Inr x
      | JStr s \<Rightarrow> Inr (stringToNumber s)
      | JArr xs \<Rightarrow> (case joinElements xs of Inl e \<Rightarrow> Inl e | Inr s \<Rightarrow> Inr (stringToNumber s))
      | JObj ms \<Rightarrow> (if map_of ms (js ''toString'') = None then Inr NaN else Inl NoPrimitiveValue))"


section \<open>The page\<close>

text \<open>
  The part of the document that the program reads and writes. An element that the page
  does not have is \<open>None\<close> (\<open>getElementById\<close> and \<open>querySelector\<close> return \<open>null\<close>). An element
  that is toggled holds whether it has the class \<open>hidden\<close>, the button whether it is
  disabled, an output element the text or markup assigned to it. The alerts shown, the
  messages of \<open>console.error\<close> and the prompts sent to the model are listed, oldest first.
\<close>

record textarea =
  inputValue :: jsstring
  borderColor :: jsstring
  boxShadow :: jsstring

record chip =
  active :: bool
  db :: "jsstring option"

record document =
  queryInput :: "textarea option"
  dbChips :: "chip list"
  ctaButton :: "bool option"
  queryButtonText :: "bool option"
  queryLoading :: "bool option"
  queryResult :: "bool option"
  queryAnalysis :: "jsstring option"
  confidenceValue :: "jsstring option"
  complexityValue :: "jsstring option"
  timeValue :: "jsstring option"
  targetsValue :: "jsstring option"
  generatedSQL :: "jsstring option"
  reasoningText :: "jsstring option"
  optimizationText :: "jsstring option"
  alerts :: "jsstring list"
  consoleErrors :: "jsstring list"
  requests :: "jsstring list"

text \<open>Assigning to an element that was found.\<close>

definition assign :: "'a \<Rightarrow> 'a option \<Rightarrow> 'a option" where
  "assign v el = (case el of None \<Rightarrow> None | Some old \<Rightarrow> Some v)"


section \<open>displayQueryResult\<close>

text \<open>Lines 252 to 258: the seven values, with their fallbacks.\<close>

record display =
  confidence :: jsstring
  complexity :: json
  time :: json
  targets :: json
  reasoning :: json
  optimization :: jsstring
  sqlQuery :: json

definition hundred :: number where
  "hundred = Fin 25 2"

text \<open>Line 252.\<close>

definition confidenceOf :: "json option \<Rightarrow> thrown + jsstring" where
  "confidenceOf score =
     (case score of
        None \<Rightarrow> Inr (js ''N/A'')
      | Some v \<Rightarrow>
          (if truthy v
           then (case toNumberJS v of
                   Inl e \<Rightarrow> Inl e
                 | Inr x \<Rightarrow> Inr (toFixed0 (multiply x hundred) @ js ''%''))
           else Inr (js ''N/A'')))"

text \<open>Line 257.\<close>

definition optimizationOf :: "json option \<Rightarrow> thrown + jsstring" where
  "optimizationOf applied =
     (case applied of
        None \<Rightarrow> Inr []
      | Some v \<Rightarrow>
          (if truthy v
           then (case toStringJS v of
                   Inl e \<Rightarrow> Inl e
                 | Inr s \<Rightarrow> Inr (js ''<strong>Optimization Applied:</strong> '' @ s))
           else Inr []))"

definition fallbacks :: "json \<Rightarrow> thrown + display" where
  "fallbacks data =
     (if data = JNull then Inl (PropertyOfNull (js ''confidenceScore''))
      else case confidenceOf (getProp data (js ''confidenceScore'')) of
        Inl e \<Rightarrow> Inl e
      | Inr c \<Rightarrow>
          (case optimizationOf (getProp data (js ''optimizationApplied'')) of
             Inl e \<Rightarrow> Inl e
           | Inr opt \<Rightarrow>
               Inr \<lparr>confidence = c,
                    complexity = orElse (getProp data (js ''queryComplexity'')) (JStr (js ''N/A'')),
                    time = orElse (getProp data (js ''estimatedExecutionTime'')) (JStr (js ''N/A'')),
                    targets = orElse (getProp data (js ''targetDatabases'')) (JStr (js ''N/A'')),
                    reasoning = orElse (getProp data (js ''queryReasoning''))
                                  (JStr (js ''No reasoning provided.'')),
                    optimization = opt,
                    sqlQuery = orElse (getProp data (js ''generatedSQL''))
                                 (JStr (js ''-- No query generated --''))\<rparr>))"

text \<open>
  Line 267: \<open>highlightCode(sqlQuery)\<close> calls \<open>code.trim()\<close>, which only a string has.
\<close>

definition highlightAny :: "json \<Rightarrow> thrown + jsstring" where
  "highlightAny code =
     (case code of JStr s \<Rightarrow> Inr (highlightCode s) | _ \<Rightarrow> Inl (NotAFunction (js ''code.trim'')))"

text \<open>
  Lines 260 to 267: the assignments, in the order of the source. Assigning to
  \<open>textContent\<close> converts the value to a string; an assignment that throws leaves the
  earlier ones done.
\<close>

definition render :: "display \<Rightarrow> document \<Rightarrow> thrown option \<times> document" where
  "render d doc0 =
     (let doc1 = doc0\<lparr>confidenceValue := Some (confidence d)\<rparr>
      in case toStringJS (complexity d) of
        Inl e \<Rightarrow> (Some e, doc1)
      | Inr t2 \<Rightarrow>
     (let doc2 = doc1\<lparr>complexityValue := Some t2\<rparr>
      in case toStringJS (time d) of
        Inl e \<Rightarrow> (Some e, doc2)
      | Inr t3 \<Rightarrow>
     (let doc3 = doc2\<lparr>timeValue := Some t3\<rparr>
      in case toStringJS (targets d) of
        Inl e \<Rightarrow> (Some e, doc3)
      | Inr t4 \<Rightarrow>
     (let doc4 = doc3\<lparr>targetsValue := Some t4\<rparr>
      in case toStringJS (reasoning d) of
        Inl e \<Rightarrow> (Some e, doc4)
      | Inr t5 \<Rightarrow>
     (let doc5 = doc4\<lparr>reasoningText := Some t5, optimizationText := Some (optimization d)\<rparr>
      in case highlightAny (sqlQuery d) of
        Inl e \<Rightarrow> (Some e, doc5)
      | Inr t6 \<Rightarrow> (None, doc5\<lparr>generatedSQL := Some t6\<rparr>))))))"

text \<open>
  Lines 236 to 268. The result is what the call throws (\<open>None\<close> when it returns) and the
  document that it leaves.
\<close>

definition resultElementsMissing :: "document \<Rightarrow> bool" where
  "resultElementsMissing doc =
     (confidenceValue doc = None \<or> complexityValue doc = None \<or> timeValue doc = None
      \<or> targetsValue doc = None \<or> generatedSQL doc = None \<or> reasoningText doc = None
      \<or> optimizationText doc = None)"

definition displayQueryResult :: "json \<Rightarrow> document \<Rightarrow> thrown option \<times> document" where
  "displayQueryResult data doc =
     (if resultElementsMissing doc
      then (None, doc\<lparr>consoleErrors := consoleErrors doc
                          @ [js ''One or more result elements not found in the DOM.'']\<rparr>)
      else case fallbacks data of
        Inl e \<Rightarrow> (Some e, doc)
      | Inr d \<Rightarrow> render d doc)"


section \<open>executeQuery\<close>

text \<open>Lines 115 to 130: the prompt around the question and the joined targets.\<close>

definition promptHead :: jsstring where
  \<open>promptHead =
     js ''\<newline>''
     @ js ''You are a world-class database engineer and data analyst. Your task is ''
     @ js ''to convert a natural language query into an optimized, secure, and dialect-specific ''
     @ js ''query for the given databases.\<newline>''
     @ js ''\<newline>''
     @ js ''**Natural Language Query:**\<newline>''
     @ js ''"''\<close>

definition promptMiddle :: jsstring where
  \<open>promptMiddle =
     js ''"\<newline>''
     @ js ''\<newline>''
     @ js ''**Target Databases:**\<newline>''\<close>

definition promptTail :: jsstring where
  \<open>promptTail =
     js ''\<newline>''
     @ js ''\<newline>''
     @ js ''**Instructions:**\<newline>''
     @ js ''1.  **Analyze the Query:** Understand the user's intent, including entities, ''
     @ js ''relationships, and constraints.\<newline>''
     @ js ''2.  **Select Best Query Language:** If 'mongodb' is the only selected ''
     @ js ''database or the query implies document-based data (e.g., user profiles, ''
     @ js ''activity logs), generate a MongoDB Aggregation Pipeline query as a JSON ''
     @ js ''string. Otherwise, generate SQL. If multiple SQL databases are selected, ''
     @ js ''generate a standard, compatible SQL. If a mix of SQL and MongoDB is selected, ''
     @ js ''generate a federated query comment block explaining how the two would ''
     @ js ''interact, followed by the primary SQL query.\<newline>''
     @ js ''3.  **Generate the Query:** Write the query. Ensure it is optimized, secure ''
     @ js ''(prevent SQL injection), and readable.\<newline>''
     @ js ''4.  **Provide Analysis & Explanation:** Briefly explain the generated ''
     @ js ''query, the logic behind it, and any optimizations applied.\<newline>''
     @ js ''5.  **Return JSON:** Respond ONLY with a valid JSON object matching the ''
     @ js ''provided schema. Do not include any markdown formatting like ```json.\<newline>''\<close>

text \<open>\<open>selectedDbs.join(', ')\<close>; a chip without \<open>data-db\<close> gives \<open>undefined\<close>, joined as the empty text.\<close>

fun joinDbs :: "jsstring option list \<Rightarrow> jsstring" where
  "joinDbs [] = []"
| "joinDbs [d] = (case d of None \<Rightarrow> [] | Some s \<Rightarrow> s)"
| "joinDbs (d # ds) = (case d of None \<Rightarrow> [] | Some s \<Rightarrow> s) @ js '', '' @ joinDbs ds"

definition promptFor :: "jsstring \<Rightarrow> jsstring option list \<Rightarrow> jsstring" where
  "promptFor question selectedDbs =
     promptHead @ question @ promptMiddle @ joinDbs selectedDbs @ promptTail"

text \<open>
  The call \<open>await ai.models.generateContent(...)\<close> is the outside world: it rejects, with
  the text that line 169 derives from the error (\<open>error.message\<close>, or \<open>String(error)\<close>), or
  it resolves with a response whose \<open>text\<close> is a string or \<open>undefined\<close>. A call that never
  settles leaves \<open>executeQuery\<close> suspended at line 146 and is not a result.
\<close>

datatype outcome = Rejects jsstring | Resolves "jsstring option"

text \<open>
  Line 169: the text shown for what was caught. The message of an error that the engine
  raises is the engine's: \<open>msg\<close>.
\<close>

definition errorText :: "(thrown \<Rightarrow> jsstring) \<Rightarrow> thrown \<Rightarrow> jsstring" where
  "errorText msg e = (case e of Rejection t \<Rightarrow> t | _ \<Rightarrow> msg e)"

definition errorMarkup :: "jsstring \<Rightarrow> jsstring" where
  \<open>errorMarkup t =
     js ''<p style="color: var(--danger); grid-column: 1 / -1;">An error occurred. ''
     @ js ''Please check the console for details. <br> '' @ t @ js ''</p>''\<close>

text \<open>Lines 161 to 171.\<close>

definition catchBlock :: "(thrown \<Rightarrow> jsstring) \<Rightarrow> thrown \<Rightarrow> document \<Rightarrow> thrown option \<times> document" where
  "catchBlock msg e doc =
     displayQueryResult (JObj [])
       (doc\<lparr>consoleErrors := consoleErrors doc @ [js ''Error executing query with Gemini API:''],
            queryResult := assign False (queryResult doc),
            queryAnalysis := assign (errorMarkup (errorText msg e)) (queryAnalysis doc)\<rparr>)"

text \<open>Lines 172 to 177.\<close>

definition finallyBlock :: "document \<Rightarrow> document" where
  "finallyBlock doc =
     doc\<lparr>queryButtonText := assign False (queryButtonText doc),
         queryLoading := assign True (queryLoading doc),
         ctaButton := assign False (ctaButton doc)\<rparr>"

text \<open>Lines 108 to 112.\<close>

definition showLoading :: "document \<Rightarrow> document" where
  "showLoading doc =
     doc\<lparr>queryButtonText := assign True (queryButtonText doc),
         queryLoading := assign False (queryLoading doc),
         ctaButton := assign True (ctaButton doc),
         queryResult := assign True (queryResult doc)\<rparr>"

text \<open>Line 158: \<open>JSON.parse\<close> converts its argument to a string first.\<close>

definition bodyText :: "jsstring option \<Rightarrow> jsstring" where
  "bodyText body = (case body of None \<Rightarrow> js ''undefined'' | Some t \<Rightarrow> t)"

text \<open>Lines 114 to 160: the body of the \<open>try\<close>, given the outcome of the call.\<close>

definition tryBlock :: "outcome \<Rightarrow> document \<Rightarrow> thrown option \<times> document" where
  "tryBlock out doc =
     (case out of
        Rejects t \<Rightarrow> (Some (Rejection t), doc)
      | Resolves body \<Rightarrow>
          (let doc1 = doc\<lparr>queryResult := assign False (queryResult doc)\<rparr>
           in case jsonParse (bodyText body) of
                None \<Rightarrow> (Some (JsonSyntaxError (bodyText body)), doc1)
              | Some resultData \<Rightarrow> displayQueryResult resultData doc1))"

text \<open>
  Lines 103 to 177: the submission that passed the two checks. \<open>api\<close> gives the outcome
  of the call for a prompt. The result is what escapes (the rejection of the promise of
  \<open>executeQuery\<close>; \<open>None\<close> when there is none) and the document that is left.
\<close>

definition dispatch ::
  "(thrown \<Rightarrow> jsstring) \<Rightarrow> (jsstring \<Rightarrow> outcome) \<Rightarrow> jsstring \<Rightarrow> jsstring option list \<Rightarrow> document
   \<Rightarrow> thrown option \<times> document" where
  "dispatch msg api question selectedDbs doc =
     (let prompt = promptFor question selectedDbs;
          doc1 = showLoading doc;
          doc2 = doc1\<lparr>requests := requests doc1 @ [prompt]\<rparr>
      in case tryBlock (api prompt) doc2 of
           (None, doc3) \<Rightarrow> (None, finallyBlock doc3)
         | (Some e, doc3) \<Rightarrow>
             (case catchBlock msg e doc3 of
                (escaped, doc4) \<Rightarrow> (escaped, finallyBlock doc4)))"

text \<open>
  Lines 88 and 89: \<open>queryInputEl?.value\<close>, \<open>undefined\<close> when the page has no such element.
\<close>

definition questionOf :: "document \<Rightarrow> jsstring option" where
  "questionOf doc = (case queryInput doc of None \<Rightarrow> None | Some el \<Rightarrow> Some (inputValue el))"

text \<open>Lines 95 and 96: the \<open>data-db\<close> of the chips that are active.\<close>

definition selectedOf :: "document \<Rightarrow> jsstring option list" where
  "selectedOf doc = map db (filter active (dbChips doc))"

text \<open>Lines 87 to 178.\<close>

definition executeQuery ::
  "(thrown \<Rightarrow> jsstring) \<Rightarrow> (jsstring \<Rightarrow> outcome) \<Rightarrow> document \<Rightarrow> thrown option \<times> document" where
  "executeQuery msg api doc =
     (case questionOf doc of
        None \<Rightarrow> (None, doc\<lparr>alerts := alerts doc @ [js ''Please enter a query'']\<rparr>)
      | Some question \<Rightarrow>
          (if question = [] \<or> trim question = []
           then (None, doc\<lparr>alerts := alerts doc @ [js ''Please enter a query'']\<rparr>)
           else if length (selectedOf doc) = 0
           then (None, doc\<lparr>alerts := alerts doc @ [js ''Please select at least one database.'']\<rparr>)
           else dispatch msg api question (selectedOf doc) doc))"


section \<open>validateQueryInput\<close>

text \<open>
  \<open>String.prototype.toLowerCase\<close> maps \<open>A\<close> to \<open>Z\<close> to \<open>a\<close> to \<open>z\<close> and leaves the other ASCII
  characters. What replaces a character above U+007F is the Unicode character
  database's, which the program does not contain: \<open>lower before c after\<close> are the code
  units for the code unit \<open>c\<close> standing between \<open>before\<close> (last one first) and \<open>after\<close>.
\<close>

fun toLowerFrom :: "(jsstring \<Rightarrow> int \<Rightarrow> jsstring \<Rightarrow> jsstring) \<Rightarrow> jsstring \<Rightarrow> jsstring \<Rightarrow> jsstring" where
  "toLowerFrom lower before [] = []"
| "toLowerFrom lower before (c # cs) =
     (if c < 128 then [if 65 \<le> c \<and> c \<le> 90 then c + 32 else c] else lower before c cs)
     @ toLowerFrom lower (c # before) cs"

definition toLowerCase :: "(jsstring \<Rightarrow> int \<Rightarrow> jsstring \<Rightarrow> jsstring) \<Rightarrow> jsstring \<Rightarrow> jsstring" where
  "toLowerCase lower s = toLowerFrom lower [] s"

definition mutatingKeywords :: "jsstring list" where
  "mutatingKeywords = map js [''delete'', ''drop'', ''truncate'', ''update'', ''insert'']"

text \<open>Line 324: the negation of \<open>isReadOnly\<close>.\<close>

definition flagged :: "(jsstring \<Rightarrow> int \<Rightarrow> jsstring \<Rightarrow> jsstring) \<Rightarrow> jsstring \<Rightarrow> bool" where
  "flagged lower v = list_ex (\<lambda>keyword. includesStr (toLowerCase lower v) keyword) mutatingKeywords"

text \<open>Lines 319 to 333.\<close>

definition validateQueryInput :: "(jsstring \<Rightarrow> int \<Rightarrow> jsstring \<Rightarrow> jsstring) \<Rightarrow> document \<Rightarrow> document" where
  "validateQueryInput lower doc =
     (case queryInput doc of
        None \<Rightarrow> doc
      | Some el \<Rightarrow>
          (if flagged lower (inputValue el)
           then doc\<lparr>queryInput := Some (el\<lparr>borderColor := js ''var(--warning)'',
                                            boxShadow := js ''0 0 0 3px rgba(245, 158, 11, 0.1)''\<rparr>)\<rparr>
           else doc\<lparr>queryInput := Some (el\<lparr>borderColor := js ''var(--border)'',
                                            boxShadow := js ''none''\<rparr>)\<rparr>))"


section \<open>Notions of the specification\<close>

text \<open>
  The question text is empty or consists of white space only (or the page has no input
  element, so that the text read is \<open>undefined\<close>).
\<close>

definition blank :: "document \<Rightarrow> bool" where
  "blank doc = (case questionOf doc of None \<Rightarrow> True | Some q \<Rightarrow> list_all isWhiteSpace q)"


text \<open>The input is shown with the warning style.\<close>

definition advisory :: "document \<Rightarrow> bool" where
  "advisory doc =
     (case queryInput doc of None \<Rightarrow> False | Some el \<Rightarrow> borderColor el = js ''var(--warning)'')"


section \<open>Sample inputs\<close>

text \<open>A page with every element, one engine selected and the results of an earlier query.\<close>

definition samplePage :: document where
  "samplePage =
     \<lparr>queryInput = Some \<lparr>inputValue = js ''adults per city'', borderColor = [], boxShadow = []\<rparr>,
      dbChips = [\<lparr>active = True, db = Some (js ''postgresql'')\<rparr>,
                 \<lparr>active = False, db = Some (js ''mongodb'')\<rparr>],
      ctaButton = Some False,
      queryButtonText = Some False,
      queryLoading = Some True,
      queryResult = Some True,
      queryAnalysis = Some (js ''earlier analysis''),
      confidenceValue = Some (js ''95%''),
      complexityValue = Some (js ''Tier 2''),
      timeValue = Some (js ''1.5s''),
      targetsValue = Some (js ''postgresql''),
      generatedSQL = Some (js ''earlier query''),
      reasoningText = Some (js ''earlier reasoning''),
      optimizationText = Some (js ''earlier optimization''),
      alerts = [],
      consoleErrors = [],
      requests = []\<rparr>"

definition blankPage :: document where
  "blankPage = samplePage\<lparr>queryInput := Some \<lparr>inputValue = [32, 9, 10], borderColor = [], boxShadow = []\<rparr>\<rparr>"

definition unselectedPage :: document where
  "unselectedPage = samplePage\<lparr>dbChips := [\<lparr>active = False, db = Some (js ''postgresql'')\<rparr>]\<rparr>"

definition sampleMessages :: "thrown \<Rightarrow> jsstring" where
  "sampleMessages e = js ''engine message''"

definition failingApi :: "jsstring \<Rightarrow> outcome" where
  "failingApi prompt = Rejects (js ''Failed to fetch'')"


definition keepNonAscii :: "jsstring \<Rightarrow> int \<Rightarrow> jsstring \<Rightarrow> jsstring" where
  "keepNonAscii before c after = [c]"

text \<open>The page with a statement in capitals, and with one in small letters, in the input.\<close>

definition capitalsPage :: document where
  "capitalsPage =
     samplePage\<lparr>queryInput := Some \<lparr>inputValue = js ''DROP TABLE users'', borderColor = [], boxShadow = []\<rparr>\<rparr>"

definition mutatingPage :: document where
  "mutatingPage =
     samplePage\<lparr>queryInput := Some \<lparr>inputValue = js ''drop table users'', borderColor = [], boxShadow = []\<rparr>\<rparr>"



definition falsyData :: json where
  "falsyData =
     JObj [(js ''confidenceScore'', JNum (Fin 0 0)), (js ''generatedSQL'', JStr []),
           (js ''queryReasoning'', JStr []), (js ''optimizationApplied'', JStr [])]"


section \<open>Auxiliary facts\<close>

lemma trim_empty_iff: "trim q = [] \<longleftrightarrow> list_all isWhiteSpace q"
proof -
  have "trim q = [] \<longleftrightarrow> (\<forall>x\<in>set (dropWhile isWhiteSpace q). isWhiteSpace x)"
    by (simp add: trim_def dropWhile_eq_Nil_conv)
  also have "\<dots> \<longleftrightarrow> dropWhile isWhiteSpace q = []"
  proof
    assume a: "\<forall>x\<in>set (dropWhile isWhiteSpace q). isWhiteSpace x"
    show "dropWhile isWhiteSpace q = []"
    proof (rule ccontr)
      assume n: "dropWhile isWhiteSpace q \<noteq> []"
      then have "\<not> isWhiteSpace (hd (dropWhile isWhiteSpace q))" by (rule hd_dropWhile)
      moreover from n have "hd (dropWhile isWhiteSpace q) \<in> set (dropWhile isWhiteSpace q)" by simp
      ultimately show False using a by blast
    qed
  next
    assume "dropWhile isWhiteSpace q = []"
    then show "\<forall>x\<in>set (dropWhile isWhiteSpace q). isWhiteSpace x"
      by (simp only: list.set ball_empty)
  qed
  also have "\<dots> \<longleftrightarrow> list_all isWhiteSpace q"
    by (simp add: dropWhile_eq_Nil_conv list_all_iff)
  finally show ?thesis .
qed

text \<open>Replacing one literal character everywhere is a map over the characters.\<close>

lemma replace_char:
  "replaceAll False (Lits [c]) [RLit r] prev s = concat (map (\<lambda>x. if x = c then r else [x]) s)"
  by (induction s arbitrary: prev) (auto simp: canonicalize_def)

lemma concat_map_concat:
  "concat (map f (concat (map g s))) = concat (map (\<lambda>x. concat (map f (g x))) s)"
  by (induction s) auto

lemma escapeHtml_chars: "escapeHtml s = concat (map escapeChar s)"
proof -
  have "escapeHtml s
        = concat (map (\<lambda>x. if x = 62 then js ''&gt;'' else [x])
            (concat (map (\<lambda>x. if x = 60 then js ''&lt;'' else [x])
               (concat (map (\<lambda>x. if x = 38 then js ''&amp;'' else [x]) s)))))"
    by (simp add: escapeHtml_def replaceG_def js_def replace_char cong: if_cong)
  also have "\<dots> = concat (map escapeChar s)"
    unfolding concat_map_concat
    by (rule arg_cong[where f = concat], rule map_cong) (auto simp: escapeChar_def js_def)
  finally show ?thesis .
qed

lemma assign_assign: "assign a (assign b x) = assign a x"
  by (cases x) (simp_all add: assign_def)

lemma render_keeps:
  "render d doc = (r, doc') \<Longrightarrow>
     ctaButton doc' = ctaButton doc \<and> queryButtonText doc' = queryButtonText doc
     \<and> queryLoading doc' = queryLoading doc \<and> queryResult doc' = queryResult doc
     \<and> queryAnalysis doc' = queryAnalysis doc \<and> alerts doc' = alerts doc
     \<and> requests doc' = requests doc \<and> queryInput doc' = queryInput doc
     \<and> dbChips doc' = dbChips doc"
  by (auto simp: render_def Let_def split: sum.splits)

lemma render_present:
  "render d doc = (r, doc') \<Longrightarrow> \<not> resultElementsMissing doc \<Longrightarrow> \<not> resultElementsMissing doc'"
  by (auto simp: render_def Let_def resultElementsMissing_def split: sum.splits)

text \<open>What a \<open>render\<close> that returns has assigned.\<close>

lemma render_done:
  "render d doc = (None, doc') \<Longrightarrow>
     confidenceValue doc' = Some (confidence d)
     \<and> toStringJS (complexity d) = Inr (the (complexityValue doc'))
     \<and> toStringJS (time d) = Inr (the (timeValue doc'))
     \<and> toStringJS (targets d) = Inr (the (targetsValue doc'))
     \<and> toStringJS (reasoning d) = Inr (the (reasoningText doc'))
     \<and> optimizationText doc' = Some (optimization d)
     \<and> highlightAny (sqlQuery d) = Inr (the (generatedSQL doc'))
     \<and> complexityValue doc' \<noteq> None \<and> timeValue doc' \<noteq> None \<and> targetsValue doc' \<noteq> None
     \<and> reasoningText doc' \<noteq> None \<and> generatedSQL doc' \<noteq> None"
  by (auto simp: render_def Let_def split: sum.splits)

lemma display_keeps:
  "displayQueryResult data doc = (r, doc') \<Longrightarrow>
     ctaButton doc' = ctaButton doc \<and> queryButtonText doc' = queryButtonText doc
     \<and> queryLoading doc' = queryLoading doc \<and> queryResult doc' = queryResult doc
     \<and> queryAnalysis doc' = queryAnalysis doc \<and> alerts doc' = alerts doc
     \<and> requests doc' = requests doc \<and> queryInput doc' = queryInput doc
     \<and> dbChips doc' = dbChips doc
     \<and> resultElementsMissing doc' = resultElementsMissing doc"
proof (cases "resultElementsMissing doc")
  case True
  assume "displayQueryResult data doc = (r, doc')"
  with True show ?thesis
    by (auto simp: displayQueryResult_def resultElementsMissing_def)
next
  case False
  assume "displayQueryResult data doc = (r, doc')"
  with False show ?thesis
    by (auto simp: displayQueryResult_def split: sum.splits dest: render_keeps render_present)
qed

lemma display_rendered:
  assumes "\<not> resultElementsMissing doc" and "displayQueryResult data doc = (None, doc')"
  shows "\<exists>d. fallbacks data = Inr d \<and> render d doc = (None, doc')"
  using assms by (auto simp: displayQueryResult_def split: sum.splits)

lemma fallbacks_values:
  assumes "fallbacks data = Inr d"
  shows "confidenceOf (getProp data (js ''confidenceScore'')) = Inr (confidence d)"
    and "optimizationOf (getProp data (js ''optimizationApplied'')) = Inr (optimization d)"
    and "complexity d = orElse (getProp data (js ''queryComplexity'')) (JStr (js ''N/A''))"
    and "time d = orElse (getProp data (js ''estimatedExecutionTime'')) (JStr (js ''N/A''))"
    and "targets d = orElse (getProp data (js ''targetDatabases'')) (JStr (js ''N/A''))"
    and "reasoning d = orElse (getProp data (js ''queryReasoning'')) (JStr (js ''No reasoning provided.''))"
    and "sqlQuery d = orElse (getProp data (js ''generatedSQL'')) (JStr (js ''-- No query generated --''))"
  using assms by (auto simp: fallbacks_def split: if_splits sum.splits)

lemma fallbacks_empty:
  "fallbacks (JObj []) = Inr \<lparr>confidence = js ''N/A'', complexity = JStr (js ''N/A''),
      time = JStr (js ''N/A''), targets = JStr (js ''N/A''),
      reasoning = JStr (js ''No reasoning provided.''), optimization = [],
      sqlQuery = JStr (js ''-- No query generated --'')\<rparr>"
  by (simp add: fallbacks_def getProp_def confidenceOf_def optimizationOf_def orElse_def)

text \<open>\<open>displayQueryResult({})\<close> returns, with every field at its fallback.\<close>

lemma display_empty:
  "displayQueryResult (JObj []) doc =
     (if resultElementsMissing doc
      then (None, doc\<lparr>consoleErrors := consoleErrors doc
                          @ [js ''One or more result elements not found in the DOM.'']\<rparr>)
      else (None, doc\<lparr>confidenceValue := Some (js ''N/A''), complexityValue := Some (js ''N/A''),
              timeValue := Some (js ''N/A''), targetsValue := Some (js ''N/A''),
              reasoningText := Some (js ''No reasoning provided.''), optimizationText := Some [],
              generatedSQL := Some (highlightCode (js ''-- No query generated --''))\<rparr>))"
  by (simp add: displayQueryResult_def fallbacks_empty render_def highlightAny_def)

lemma tryBlock_keeps:
  "tryBlock out doc = (r, doc') \<Longrightarrow>
     ctaButton doc' = ctaButton doc \<and> queryButtonText doc' = queryButtonText doc
     \<and> queryLoading doc' = queryLoading doc \<and> queryAnalysis doc' = queryAnalysis doc
     \<and> alerts doc' = alerts doc \<and> requests doc' = requests doc
     \<and> resultElementsMissing doc' = resultElementsMissing doc
     \<and> assign False (queryResult doc') = assign False (queryResult doc)"
  by (auto simp: tryBlock_def Let_def resultElementsMissing_def assign_assign
           split: outcome.splits option.splits dest!: display_keeps)


text \<open>The \<open>catch\<close> block does not throw.\<close>

lemma catchBlock_result:
  "catchBlock msg e doc = (r, doc') \<Longrightarrow>
     r = None \<and> ctaButton doc' = ctaButton doc \<and> queryButtonText doc' = queryButtonText doc
     \<and> queryLoading doc' = queryLoading doc \<and> alerts doc' = alerts doc \<and> requests doc' = requests doc
     \<and> queryAnalysis doc' = assign (errorMarkup (errorText msg e)) (queryAnalysis doc)
     \<and> queryResult doc' = assign False (queryResult doc)
     \<and> (\<not> resultElementsMissing doc \<longrightarrow>
          confidenceValue doc' = Some (js ''N/A'') \<and> complexityValue doc' = Some (js ''N/A'')
          \<and> timeValue doc' = Some (js ''N/A'') \<and> targetsValue doc' = Some (js ''N/A'')
          \<and> reasoningText doc' = Some (js ''No reasoning provided.'')
          \<and> optimizationText doc' = Some []
          \<and> generatedSQL doc' = Some (highlightCode (js ''-- No query generated --'')))"
  unfolding catchBlock_def display_empty
  by (auto simp: resultElementsMissing_def split: if_splits)

lemma executeQuery_dispatch:
  assumes "questionOf doc = Some q" and "\<not> blank doc" and "selectedOf doc \<noteq> []"
  shows "executeQuery msg api doc = dispatch msg api q (selectedOf doc) doc"
proof -
  from assms have "q \<noteq> []" "trim q \<noteq> []" by (auto simp: blank_def trim_empty_iff)
  with assms show ?thesis by (simp add: executeQuery_def)
qed

lemma dispatch_result:
  assumes "dispatch msg api q sel doc = (escaped, doc')"
  shows "\<exists>r doc3.
           tryBlock (api (promptFor q sel))
             ((showLoading doc)\<lparr>requests := requests (showLoading doc) @ [promptFor q sel]\<rparr>) = (r, doc3)
           \<and> (r = None \<longrightarrow> escaped = None \<and> doc' = finallyBlock doc3)
           \<and> (\<forall>e. r = Some e \<longrightarrow>
                 escaped = fst (catchBlock msg e doc3)
                 \<and> doc' = finallyBlock (snd (catchBlock msg e doc3)))"
proof -
  obtain r doc3 where t:
    "tryBlock (api (promptFor q sel))
       ((showLoading doc)\<lparr>requests := requests (showLoading doc) @ [promptFor q sel]\<rparr>) = (r, doc3)"
    by fastforce
  have "r = None \<longrightarrow> escaped = None \<and> doc' = finallyBlock doc3"
    using assms t by (auto simp: dispatch_def Let_def)
  moreover have "\<forall>e. r = Some e \<longrightarrow>
                 escaped = fst (catchBlock msg e doc3)
                 \<and> doc' = finallyBlock (snd (catchBlock msg e doc3))"
    using assms t by (auto simp: dispatch_def Let_def split: prod.splits)
  ultimately show ?thesis using t by blast
qed

lemma showLoading_fields:
  "ctaButton (showLoading doc) = assign True (ctaButton doc)"
  "queryButtonText (showLoading doc) = assign True (queryButtonText doc)"
  "queryLoading (showLoading doc) = assign False (queryLoading doc)"
  "queryAnalysis (showLoading doc) = queryAnalysis doc"
  "assign False (queryResult (showLoading doc)) = assign False (queryResult doc)"
  "resultElementsMissing ((showLoading doc)\<lparr>requests := rs\<rparr>) = resultElementsMissing doc"
  by (simp_all add: showLoading_def resultElementsMissing_def assign_assign)

lemma samplePage_facts:
  "questionOf samplePage = Some (js ''adults per city'')"
  "\<not> blank samplePage" "selectedOf samplePage \<noteq> []" "\<not> resultElementsMissing samplePage"
  by code_simp+

lemma startsWith_iff: "startsWith s p \<longleftrightarrow> (\<exists>t. s = p @ t)"
  by (induction s p rule: startsWith.induct) auto

lemma includesStr_iff: "includesStr s k \<longleftrightarrow> (\<exists>p t. s = p @ k @ t)"
proof (induction s)
  case Nil
  then show ?case by simp
next
  case (Cons c cs)
  show ?case
  proof
    assume "includesStr (c # cs) k"
    then consider "startsWith (c # cs) k" | "includesStr cs k" by auto
    then show "\<exists>p t. c # cs = p @ k @ t"
    proof cases
      case 1
      then obtain t where "c # cs = k @ t" by (auto simp: startsWith_iff)
      then have "c # cs = [] @ k @ t" by simp
      then show ?thesis by blast
    next
      case 2
      with Cons obtain p t where "cs = p @ k @ t" by blast
      then have "c # cs = (c # p) @ k @ t" by simp
      then show ?thesis by blast
    qed
  next
    assume "\<exists>p t. c # cs = p @ k @ t"
    then obtain p t where e: "c # cs = p @ k @ t" by blast
    show "includesStr (c # cs) k"
    proof (cases p)
      case Nil
      with e have "startsWith (c # cs) k" by (auto simp: startsWith_iff)
      then show ?thesis by simp
    next
      case (Cons a p')
      with e have "cs = p' @ k @ t" by simp
      with Cons.IH have "includesStr cs k" by blast
      then show ?thesis by simp
    qed
  qed
qed

text \<open>Lower-casing keeps a run of small ASCII letters where it is.\<close>

lemma toLowerFrom_fixed:
  "\<forall>c\<in>set k. 97 \<le> c \<and> c \<le> 122 \<Longrightarrow>
     toLowerFrom lower before (k @ t) = k @ toLowerFrom lower (rev k @ before) t"
  by (induction k arbitrary: before) auto

lemma toLowerFrom_keeps:
  "\<forall>c\<in>set k. 97 \<le> c \<and> c \<le> 122 \<Longrightarrow>
     \<exists>p' t'. toLowerFrom lower before (p @ k @ t) = p' @ k @ t'"
proof (induction p arbitrary: before)
  case Nil
  then show ?case by (simp add: toLowerFrom_fixed) blast
next
  case (Cons c p)
  from Cons.IH[OF Cons.prems, of "c # before"] obtain p' t'
    where "toLowerFrom lower (c # before) (p @ k @ t) = p' @ k @ t'" by blast
  then have "toLowerFrom lower before ((c # p) @ k @ t)
      = ((if c < 128 then [if 65 \<le> c \<and> c \<le> 90 then c + 32 else c] else lower before c (p @ k @ t)) @ p')
        @ k @ t'"
    by simp
  then show ?case by blast
qed

lemma includes_lowered:
  assumes "\<forall>c\<in>set k. 97 \<le> c \<and> c \<le> 122" and "includesStr v k"
  shows "includesStr (toLowerCase lower v) k"
proof -
  from assms(2) obtain p t where "v = p @ k @ t" by (auto simp: includesStr_iff)
  with toLowerFrom_keeps[OF assms(1), of lower "[]" p t] show ?thesis
    unfolding includesStr_iff toLowerCase_def by simp
qed

lemma mutatingKeywords_lowercase:
  "\<forall>k\<in>set mutatingKeywords. \<forall>c\<in>set k. 97 \<le> c \<and> c \<le> 122"
  by (simp add: mutatingKeywords_def js_def)


section \<open>The claims\<close>

text \<open>
  C1 (the code departs from the claim). The claim: for the query text
  \<open>SELECT * FROM users WHERE age > 18 -- adults\<close>, highlightCode wraps SELECT, FROM and
  WHERE in keyword style, 18 in number style and the trailing comment in comment style,
  with no overlap or corruption between spans, and no later rule matches inside the
  markup that an earlier rule inserted. What the code returns for this text: the three
  keywords and the number are wrapped, but the rule for double-quoted strings (line 213),
  which runs after the comment rule (line 209), matches the attribute value
  \<open>"token-comment"\<close> of the span that the comment rule inserted and wraps it in a string
  span inside the tag.
\<close>

theorem highlight_sql_example:
  \<open>highlightCode (js ''SELECT * FROM users WHERE age > 18 -- adults'')
     = js ''<span class="token-keyword">SELECT</span> * <span class="token-keyword">FROM</span> users ''
       @ js ''<span class="token-keyword">WHERE</span> age &gt; <span class="token-number">18</span> ''
       @ js ''<span class=<span class="token-string">"token-comment"</span>>-- adults</span>''\<close>
  by code_simp

text \<open>
  C2. For the query text \<open>{"$match": {"age": {"$gt": 18}}}\<close>, highlightCode first replaces
  the text with its JSON rendering indented by two spaces, and then wraps \<open>"$match"\<close> and
  \<open>"$gt"\<close> in keyword style, \<open>"age"\<close> in string style and \<open>18\<close> in number style.
\<close>

theorem highlight_pipeline_example:
  \<open>map_option jsonStringify (jsonParse (js ''{"$match": {"age": {"$gt": 18}}}''))
     = Some (js ''{\<newline>  "$match": {\<newline>    "age": {\<newline>      "$gt": 18\<newline>    }\<newline>  }\<newline>}'')
   \<and> highlightCode (js ''{"$match": {"age": {"$gt": 18}}}'')
     = js ''{\<newline>  <span class="token-keyword">"$match"</span>: {\<newline>''
       @ js ''    <span class="token-string">"age"</span>: {\<newline>''
       @ js ''      <span class="token-keyword">"$gt"</span>: <span class="token-number">18</span>\<newline>''
       @ js ''    }\<newline>  }\<newline>}''\<close>
  by code_simp

text \<open>
  C3. For every input whose trimmed text begins with \<open>[\<close> or \<open>{\<close> and is not valid JSON,
  highlightCode does not pretty-print: its result is the token rules applied to the
  escaped trimmed text, in which every \<open>&\<close>, \<open><\<close> and \<open>>\<close> of the trimmed text has become
  \<open>&amp;\<close>, \<open>&lt;\<close> and \<open>&gt;\<close>. The SyntaxError of \<open>JSON.parse\<close> is caught inside: the result
  is a string for every input.
\<close>

theorem highlight_keeps_invalid_json_text:
  assumes "startsWith (trim code) (js ''['') \<or> startsWith (trim code) (js ''{'')"
    and "jsonParse (trim code) = None"
  shows "highlightCode code = tokenRules (escapeHtml (trim code))
         \<and> escapeHtml (trim code) = concat (map escapeChar (trim code))"
  using assms by (simp add: highlightCode_def Let_def escapeHtml_chars)

theorem highlight_keeps_invalid_json_text_witness:
  \<open>jsonParse (trim (js ''{"a": }'')) = None
   \<and> highlightCode (js ''{"a": }'') = tokenRules (escapeHtml (trim (js ''{"a": }'')))
   \<and> highlightCode (js ''{"a": }'') = js ''{<span class="token-string">"a"</span>: }''\<close>
proof -
  have h1: \<open>startsWith (trim (js ''{"a": }'')) (js ''['') \<or> startsWith (trim (js ''{"a": }'')) (js ''{'')\<close>
    by code_simp
  have h2: \<open>jsonParse (trim (js ''{"a": }'')) = None\<close>
    by code_simp
  have h3: \<open>highlightCode (js ''{"a": }'') = js ''{<span class="token-string">"a"</span>: }''\<close>
    by code_simp
  from highlight_keeps_invalid_json_text[OF h1 h2] h2 h3 show ?thesis by simp
qed

text \<open>
  C4. A submission whose question text is empty or white space only is rejected with the
  alert \<open>Please enter a query\<close>; a submission with a question and with no engine selected
  is rejected with the alert \<open>Please select at least one database.\<close>. In both cases the
  alert is all that happens: no prompt is sent and no element of the page changes.
\<close>

theorem dispatcher_rejects_invalid_submission:
  "(blank doc \<longrightarrow>
      executeQuery msg api doc = (None, doc\<lparr>alerts := alerts doc @ [js ''Please enter a query'']\<rparr>))
   \<and> (\<not> blank doc \<and> selectedOf doc = [] \<longrightarrow>
      executeQuery msg api doc
        = (None, doc\<lparr>alerts := alerts doc @ [js ''Please select at least one database.'']\<rparr>))"
proof (intro conjI impI)
  assume "blank doc"
  then show "executeQuery msg api doc = (None, doc\<lparr>alerts := alerts doc @ [js ''Please enter a query'']\<rparr>)"
    by (cases "questionOf doc") (simp_all add: executeQuery_def blank_def trim_empty_iff)
next
  assume a: "\<not> blank doc \<and> selectedOf doc = []"
  then obtain q where q: "questionOf doc = Some q" "\<not> list_all isWhiteSpace q"
    by (cases "questionOf doc") (auto simp: blank_def)
  then have "q \<noteq> []" "trim q \<noteq> []" by (auto simp: trim_empty_iff)
  with a q show "executeQuery msg api doc
        = (None, doc\<lparr>alerts := alerts doc @ [js ''Please select at least one database.'']\<rparr>)"
    by (simp add: executeQuery_def)
qed

theorem dispatcher_rejects_invalid_submission_witness:
  "blank blankPage
   \<and> executeQuery sampleMessages failingApi blankPage
       = (None, blankPage\<lparr>alerts := alerts blankPage @ [js ''Please enter a query'']\<rparr>)
   \<and> \<not> blank unselectedPage \<and> selectedOf unselectedPage = []
   \<and> executeQuery sampleMessages failingApi unselectedPage
       = (None, unselectedPage\<lparr>alerts := alerts unselectedPage @ [js ''Please select at least one database.'']\<rparr>)"
proof -
  have b: "blank blankPage" by code_simp
  have u: "\<not> blank unselectedPage" "selectedOf unselectedPage = []" by code_simp+
  from dispatcher_rejects_invalid_submission[of blankPage sampleMessages failingApi]
       dispatcher_rejects_invalid_submission[of unselectedPage sampleMessages failingApi] b u
  show ?thesis by simp
qed

text \<open>
  C5. For every submission that is dispatched, whatever the outcome of the call (it
  rejects, its response is not JSON, or rendering the response throws): when
  \<open>executeQuery\<close> is done, nothing has escaped from it, the submit button (where the page
  has one) is enabled, the button text is shown and the loading indicator is hidden.
\<close>

theorem dispatcher_restores_controls:
  assumes "\<not> blank doc" and "selectedOf doc \<noteq> []"
    and "executeQuery msg api doc = (escaped, doc')"
  shows "escaped = None \<and> ctaButton doc' = assign False (ctaButton doc)
     \<and> queryButtonText doc' = assign False (queryButtonText doc)
     \<and> queryLoading doc' = assign True (queryLoading doc)"
proof -
  from assms(1) obtain q where q: "questionOf doc = Some q"
    by (cases "questionOf doc") (auto simp: blank_def)
  with assms have d: "dispatch msg api q (selectedOf doc) doc = (escaped, doc')"
    by (simp add: executeQuery_dispatch)
  from dispatch_result[OF d] obtain r doc3 where t:
      "tryBlock (api (promptFor q (selectedOf doc)))
         ((showLoading doc)\<lparr>requests := requests (showLoading doc) @ [promptFor q (selectedOf doc)]\<rparr>)
       = (r, doc3)"
    and n: "r = None \<longrightarrow> escaped = None \<and> doc' = finallyBlock doc3"
    and s: "\<forall>e. r = Some e \<longrightarrow> escaped = fst (catchBlock msg e doc3)
                                  \<and> doc' = finallyBlock (snd (catchBlock msg e doc3))"
    by blast
  show ?thesis
  proof (cases r)
    case None
    with n tryBlock_keeps[OF t] show ?thesis
      by (simp add: finallyBlock_def showLoading_fields assign_assign)
  next
    case (Some e)
    obtain r4 doc4 where c: "catchBlock msg e doc3 = (r4, doc4)" by fastforce
    with Some s catchBlock_result[OF c] tryBlock_keeps[OF t] show ?thesis
      by (simp add: finallyBlock_def showLoading_fields assign_assign)
  qed
qed

theorem dispatcher_restores_controls_witness:
  "\<not> blank samplePage \<and> selectedOf samplePage \<noteq> []
   \<and> fst (executeQuery sampleMessages failingApi samplePage) = None
   \<and> ctaButton (snd (executeQuery sampleMessages failingApi samplePage)) = Some False
   \<and> queryButtonText (snd (executeQuery sampleMessages failingApi samplePage)) = Some False
   \<and> queryLoading (snd (executeQuery sampleMessages failingApi samplePage)) = Some True"
proof -
  have e: "executeQuery sampleMessages failingApi samplePage
            = (fst (executeQuery sampleMessages failingApi samplePage),
               snd (executeQuery sampleMessages failingApi samplePage))" by simp
  have f: "assign False (ctaButton samplePage) = Some False"
          "assign False (queryButtonText samplePage) = Some False"
          "assign True (queryLoading samplePage) = Some True" by code_simp+
  from dispatcher_restores_controls[OF samplePage_facts(2,3) e] f samplePage_facts(2,3)
  show ?thesis by simp
qed









text \<open>
  C9 (corrected). The claim as it stands, that a text containing none of the five
  literal substrings is not flagged, does not hold: the text is lower-cased before the
  test (line 322). \<open>DROP TABLE users\<close> contains none of them and is flagged.
\<close>

theorem capitals_flagged_counterexample:
  "questionOf capitalsPage = Some (js ''DROP TABLE users'')
   \<and> \<not> list_ex (includesStr (js ''DROP TABLE users'')) mutatingKeywords
   \<and> advisory (validateQueryInput keepNonAscii capitalsPage)"
  by code_simp

text \<open>
  C9 as amended. The input is shown with the warning style exactly when its lower-cased
  text contains one of \<open>delete\<close>, \<open>drop\<close>, \<open>truncate\<close>, \<open>update\<close>, \<open>insert\<close>; so every
  text that contains one of them literally is flagged, and a text whose lower-cased form
  contains none is not. The advisory is visual only: the text, the alerts, the requests
  and the submit button are as they were.
\<close>

theorem advisory_flags_lowercased_keywords:
  assumes "queryInput doc = Some el"
  shows "(advisory (validateQueryInput lower doc)
           \<longleftrightarrow> list_ex (includesStr (toLowerCase lower (inputValue el))) mutatingKeywords)
     \<and> (list_ex (includesStr (inputValue el)) mutatingKeywords
           \<longrightarrow> advisory (validateQueryInput lower doc))
     \<and> questionOf (validateQueryInput lower doc) = questionOf doc
     \<and> alerts (validateQueryInput lower doc) = alerts doc
     \<and> requests (validateQueryInput lower doc) = requests doc
     \<and> ctaButton (validateQueryInput lower doc) = ctaButton doc"
proof -
  have a: "advisory (validateQueryInput lower doc) \<longleftrightarrow> flagged lower (inputValue el)"
    using assms by (simp add: advisory_def validateQueryInput_def js_def)
  have b: "list_ex (includesStr (inputValue el)) mutatingKeywords \<longrightarrow> flagged lower (inputValue el)"
    using mutatingKeywords_lowercase includes_lowered
    unfolding flagged_def list_ex_iff by blast
  have c: "questionOf (validateQueryInput lower doc) = questionOf doc"
      "alerts (validateQueryInput lower doc) = alerts doc"
      "requests (validateQueryInput lower doc) = requests doc"
      "ctaButton (validateQueryInput lower doc) = ctaButton doc"
    using assms by (simp_all add: validateQueryInput_def questionOf_def)
  from a b c show ?thesis by (simp add: flagged_def)
qed

theorem advisory_flags_lowercased_keywords_witness:
  "list_ex (includesStr (js ''drop table users'')) mutatingKeywords
   \<and> advisory (validateQueryInput keepNonAscii mutatingPage)
   \<and> questionOf (validateQueryInput keepNonAscii mutatingPage) = Some (js ''drop table users'')"
proof -
  have q: "queryInput mutatingPage
            = Some \<lparr>inputValue = js ''drop table users'', borderColor = [], boxShadow = []\<rparr>"
    by (simp add: mutatingPage_def)
  have l: "list_ex (includesStr (js ''drop table users'')) mutatingKeywords"
    by code_simp
  have v: "questionOf mutatingPage = Some (js ''drop table users'')"
    by (simp add: questionOf_def q)
  have i: "inputValue \<lparr>inputValue = js ''drop table users'', borderColor = [], boxShadow = []\<rparr>
            = js ''drop table users''" by simp
  from advisory_flags_lowercased_keywords[OF q, of keepNonAscii]
  have "list_ex (includesStr (js ''drop table users'')) mutatingKeywords
          \<longrightarrow> advisory (validateQueryInput keepNonAscii mutatingPage)"
    and "questionOf (validateQueryInput keepNonAscii mutatingPage) = questionOf mutatingPage"
    unfolding i by blast+
  with l v show ?thesis by simp
qed

text \<open>
  C10. The formatter tests a field by truthiness, so a field that is present and falsy
  is rendered as if it were missing: a confidenceScore of 0 as \<open>N/A\<close>, an empty
  generatedSQL as the placeholder query, an empty queryReasoning as
  \<open>No reasoning provided.\<close>, an empty optimizationApplied as the empty fragment; and so
  for every falsy value of every field.
\<close>

theorem formatter_falsy_field_fallbacks:
  assumes "\<not> resultElementsMissing doc" and "displayQueryResult data doc = (None, doc')"
  shows "(getProp data (js ''confidenceScore'') = Some (JNum (Fin 0 0)) \<longrightarrow>
           confidenceValue doc' = Some (js ''N/A''))
     \<and> (getProp data (js ''generatedSQL'') = Some (JStr []) \<longrightarrow>
           generatedSQL doc' = Some (highlightCode (js ''-- No query generated --'')))
     \<and> (getProp data (js ''queryReasoning'') = Some (JStr []) \<longrightarrow>
           reasoningText doc' = Some (js ''No reasoning provided.''))
     \<and> (getProp data (js ''optimizationApplied'') = Some (JStr []) \<longrightarrow> optimizationText doc' = Some [])
     \<and> (\<forall>v. \<not> truthy v \<longrightarrow>
           (getProp data (js ''confidenceScore'') = Some v \<longrightarrow> confidenceValue doc' = Some (js ''N/A''))
         \<and> (getProp data (js ''queryComplexity'') = Some v \<longrightarrow> complexityValue doc' = Some (js ''N/A''))
         \<and> (getProp data (js ''estimatedExecutionTime'') = Some v \<longrightarrow> timeValue doc' = Some (js ''N/A''))
         \<and> (getProp data (js ''targetDatabases'') = Some v \<longrightarrow> targetsValue doc' = Some (js ''N/A''))
         \<and> (getProp data (js ''queryReasoning'') = Some v \<longrightarrow>
               reasoningText doc' = Some (js ''No reasoning provided.''))
         \<and> (getProp data (js ''optimizationApplied'') = Some v \<longrightarrow> optimizationText doc' = Some [])
         \<and> (getProp data (js ''generatedSQL'') = Some v \<longrightarrow>
               generatedSQL doc' = Some (highlightCode (js ''-- No query generated --''))))"
proof -
  from display_rendered[OF assms] obtain d
    where d: "fallbacks data = Inr d" "render d doc = (None, doc')" by blast
  note v = fallbacks_values[OF d(1)] and r = render_done[OF d(2)]
  have g: "\<And>v. \<not> truthy v \<Longrightarrow>
           (getProp data (js ''confidenceScore'') = Some v \<longrightarrow> confidenceValue doc' = Some (js ''N/A''))
         \<and> (getProp data (js ''queryComplexity'') = Some v \<longrightarrow> complexityValue doc' = Some (js ''N/A''))
         \<and> (getProp data (js ''estimatedExecutionTime'') = Some v \<longrightarrow> timeValue doc' = Some (js ''N/A''))
         \<and> (getProp data (js ''targetDatabases'') = Some v \<longrightarrow> targetsValue doc' = Some (js ''N/A''))
         \<and> (getProp data (js ''queryReasoning'') = Some v \<longrightarrow>
               reasoningText doc' = Some (js ''No reasoning provided.''))
         \<and> (getProp data (js ''optimizationApplied'') = Some v \<longrightarrow> optimizationText doc' = Some [])
         \<and> (getProp data (js ''generatedSQL'') = Some v \<longrightarrow>
               generatedSQL doc' = Some (highlightCode (js ''-- No query generated --'')))"
  proof -
    fix v assume f: "\<not> truthy v"
    have 1: "getProp data (js ''confidenceScore'') = Some v \<longrightarrow> confidenceValue doc' = Some (js ''N/A'')"
      using v(1) r f by (auto simp: confidenceOf_def)
    have 2: "getProp data (js ''queryComplexity'') = Some v \<longrightarrow> complexityValue doc' = Some (js ''N/A'')"
      using v(3) r f by (auto simp: orElse_def)
    have 3: "getProp data (js ''estimatedExecutionTime'') = Some v \<longrightarrow> timeValue doc' = Some (js ''N/A'')"
      using v(4) r f by (auto simp: orElse_def)
    have 4: "getProp data (js ''targetDatabases'') = Some v \<longrightarrow> targetsValue doc' = Some (js ''N/A'')"
      using v(5) r f by (auto simp: orElse_def)
    have 5: "getProp data (js ''queryReasoning'') = Some v \<longrightarrow>
               reasoningText doc' = Some (js ''No reasoning provided.'')"
      using v(6) r f by (auto simp: orElse_def)
    have 6: "getProp data (js ''optimizationApplied'') = Some v \<longrightarrow> optimizationText doc' = Some []"
      using v(2) r f by (auto simp: optimizationOf_def)
    have 7: "getProp data (js ''generatedSQL'') = Some v \<longrightarrow>
               generatedSQL doc' = Some (highlightCode (js ''-- No query generated --''))"
      using v(7) r f by (auto simp: orElse_def highlightAny_def)
    from 1 2 3 4 5 6 7 show "?thesis v" by blast
  qed
  have z: "\<not> truthy (JNum (Fin 0 0))" "\<not> truthy (JStr [])" by (simp_all add: truthy_def)
  from g[OF z(1)] g[OF z(2)] g show ?thesis by blast
qed

theorem formatter_falsy_field_fallbacks_witness:
  \<open>jsonParse (js ''{"confidenceScore": 0, "generatedSQL": "", "queryReasoning": "", "optimizationApplied": ""}'')
     = Some falsyData
   \<and> confidenceValue (snd (displayQueryResult falsyData samplePage)) = Some (js ''N/A'')
   \<and> generatedSQL (snd (displayQueryResult falsyData samplePage))
       = Some (highlightCode (js ''-- No query generated --''))
   \<and> reasoningText (snd (displayQueryResult falsyData samplePage)) = Some (js ''No reasoning provided.'')
   \<and> optimizationText (snd (displayQueryResult falsyData samplePage)) = Some []\<close>
proof -
  have p: \<open>jsonParse (js ''{"confidenceScore": 0, "generatedSQL": "", "queryReasoning": "", "optimizationApplied": ""}'')
     = Some falsyData\<close>
    by code_simp
  have g: "getProp falsyData (js ''confidenceScore'') = Some (JNum (Fin 0 0))"
      "getProp falsyData (js ''generatedSQL'') = Some (JStr [])"
      "getProp falsyData (js ''queryReasoning'') = Some (JStr [])"
      "getProp falsyData (js ''optimizationApplied'') = Some (JStr [])"
    by code_simp+
  have f: "fst (displayQueryResult falsyData samplePage) = None"
    by code_simp
  then have e: "displayQueryResult falsyData samplePage
                 = (None, snd (displayQueryResult falsyData samplePage))"
    by (metis prod.collapse)
  from formatter_falsy_field_fallbacks[OF samplePage_facts(4) e] g p
  show ?thesis by simp
qed

end
